theory Spec2Isabelle
  imports Main "HOL-Library.Sublist"
begin

section \<open>The create-certificaterequest command of cert-manager's ctl tool\<close>

text \<open>
  A shallow embedding of \<^verbatim>\<open>cmd/ctl/pkg/create/certificaterequest.go\<close>:
  the functions \<^verbatim>\<open>Run\<close>, \<^verbatim>\<open>buildCertificateRequest\<close> and \<^verbatim>\<open>generateCSR\<close>.

  Go's \<^verbatim>\<open>[]byte\<close> and \<^verbatim>\<open>string\<close> are lists of 8-bit characters, an \<^verbatim>\<open>error\<close> is
  the message it prints (\<^verbatim>\<open>fmt.Errorf\<close> with \<^verbatim>\<open>%s\<close> or \<^verbatim>\<open>%v\<close> splices the message of
  the wrapped error into the new one).
\<close>

type_synonym bytes = string
type_synonym error = string

subsection \<open>Data model\<close>

text \<open>
  A Go map is a reference: two fields holding the same map see each other's writes.
  Maps therefore live in a heap, a list of map contents addressed by position; a field
  of map type holds \<open>None\<close> (the nil map) or the address of a map.
\<close>

type_synonym ref = nat
type_synonym heap = "(string \<rightharpoonup> string) list"

text \<open>
  The fields of \<^verbatim>\<open>metav1.ObjectMeta\<close> that the command reads or writes. A field the
  code leaves out of a struct literal has Go's zero value: the empty string, the nil map.
\<close>

record ObjectMeta =
  Name :: string
  GenerateName :: string
  Namespace :: string
  Annotations :: "ref option"
  Labels :: "ref option"

text \<open>The issuer reference (\<^verbatim>\<open>cmmeta.ObjectReference\<close>), copied as a value.\<close>

record ObjectReference =
  RefName :: string
  RefKind :: string
  RefGroup :: string

text \<open>
  \<^verbatim>\<open>cmapiv1alpha2.CertificateSpec\<close>. The type is declared in the API package, outside this file;
  the fields are the ones the file reads (secret name, duration, issuer reference, CA
  flag, usages, key encoding) and the ones the specification lists for a certificate
  spec (subject, key algorithm and size). The duration is a pointer to a number of
  nanoseconds, \<open>None\<close> when nil.
\<close>

record CertificateSpec =
  CommonName :: string
  DNSNames :: "string list"
  SecretName :: string
  Duration :: "int option"
  IssuerRef :: ObjectReference
  IsCA :: bool
  Usages :: "string list"
  KeyAlgorithm :: string
  KeySize :: int
  KeyEncoding :: string

record Certificate = ObjectMeta +
  Spec :: CertificateSpec

text \<open>
  \<^verbatim>\<open>cmapiv1alpha2.CertificateRequestSpec\<close> and \<^verbatim>\<open>cmapiv1alpha2.CertificateRequest\<close>. The Go
  fields \<^verbatim>\<open>Duration\<close>, \<^verbatim>\<open>IssuerRef\<close>, \<^verbatim>\<open>IsCA\<close>, \<^verbatim>\<open>Usages\<close> and \<^verbatim>\<open>Spec\<close> carry the prefix
  \<open>Request\<close> here, to keep them apart from the fields of the certificate.
\<close>

record CertificateRequestSpec =
  CSRPEM :: bytes
  RequestDuration :: "int option"
  RequestIssuerRef :: ObjectReference
  RequestIsCA :: bool
  RequestUsages :: "string list"

record CertificateRequest = ObjectMeta +
  RequestSpec :: CertificateRequestSpec

text \<open>
  A decoded input object (\<^verbatim>\<open>runtime.Object\<close>): a v1alpha2 certificate, or an object of
  another kind, on which the type assertion of \<^verbatim>\<open>Run\<close> fails.
\<close>

datatype RuntimeObject = CertificateObject Certificate | OtherObject string

record Info =
  Object :: RuntimeObject

text \<open>The result of the resource builder: \<^verbatim>\<open>r.Err()\<close> and \<^verbatim>\<open>r.Infos()\<close>.\<close>

record Result =
  Err :: "error option"
  Infos :: "error + Info list"

subsection \<open>Collaborators\<close>

text \<open>
  What \<^verbatim>\<open>Run\<close> calls outside the file: the command factory and resource builder, the
  scheme, the \<^verbatim>\<open>apiutil\<close> and \<^verbatim>\<open>pki\<close> helpers, the two annotation keys of the API package
  and the client. None of them is defined in the file, so the embedding takes them as
  parameters; private keys and unsigned requests are of any type. The key generator
  and the signer draw on a random source: a parameter is the outcome of the calls of
  the invocation at hand. The errors of the helpers are the messages they print.
\<close>

record ('key, 'csr) collaborators =
  ToRawKubeConfigLoader_Namespace :: "error + string \<times> bool"
  Builder_Do :: "string \<Rightarrow> bool \<Rightarrow> Result"
  ConvertToVersion :: "RuntimeObject \<Rightarrow> error + RuntimeObject"
  ComputeCertificateRequestName :: "Certificate \<Rightarrow> error + string"
  GeneratePrivateKeyForCertificate :: "Certificate \<Rightarrow> error + 'key"
  EncodePrivateKey :: "'key \<Rightarrow> string \<Rightarrow> error + bytes"
  GenerateCSR :: "Certificate \<Rightarrow> error + 'csr"
  DecodePrivateKeyBytes :: "bytes \<Rightarrow> error + 'key"
  EncodeCSR :: "'csr \<Rightarrow> 'key \<Rightarrow> error + bytes"
  CRPrivateKeyAnnotationKey :: string
  CertificateNameKey :: string
  CertificateRequests_Create :: "string \<Rightarrow> CertificateRequest \<Rightarrow> error + CertificateRequest"

subsection \<open>Effects\<close>

text \<open>
  The steps of an invocation, in the order of the statements of \<^verbatim>\<open>Run\<close>,
  \<^verbatim>\<open>buildCertificateRequest\<close> and \<^verbatim>\<open>generateCSR\<close> that perform them.
\<close>

datatype step =
    StepNamespace
  | StepBuilderDo
  | StepInfos
  | StepConvertToVersion
  | StepPrintf
  | StepComputeName
  | StepGenerateKey
  | StepEncodeKey
  | StepGenerateCSR
  | StepDecodeKey
  | StepEncodeCSR
  | StepPemEncode
  | StepAssemble
  | StepCreate

text \<open>
  The state an invocation works on: the heap of maps, the steps performed so far, and
  the requests handed to the client, each with the namespace it was sent to.
\<close>

record world =
  heap :: heap
  trace :: "step list"
  submitted :: "(string \<times> CertificateRequest) list"

text \<open>
  A statement either yields a value or returns an error, and updates the state.
  \<open>andThen\<close> is Go's \<^verbatim>\<open>x, err := m; if err != nil { return err }\<close>: after an error
  nothing of the continuation runs.
\<close>

type_synonym 'a action = "world \<Rightarrow> (error + 'a) \<times> world"

definition returnOk :: "'a \<Rightarrow> 'a action" where
  "returnOk x = (\<lambda>w. (Inr x, w))"

definition returnErr :: "error \<Rightarrow> 'a action" where
  "returnErr e = (\<lambda>w. (Inl e, w))"

definition andThen :: "'a action \<Rightarrow> ('a \<Rightarrow> 'b action) \<Rightarrow> 'b action" where
  "andThen m f = (\<lambda>w. case m w of (Inl e, w') \<Rightarrow> (Inl e, w') | (Inr x, w') \<Rightarrow> f x w')"

text \<open>\<^verbatim>\<open>if err != nil { return fmt.Errorf(..., err) }\<close>: the error is replaced on the way out.\<close>

definition wrapErr :: "(error \<Rightarrow> error) \<Rightarrow> 'a action \<Rightarrow> 'a action" where
  "wrapErr f m = (\<lambda>w. case m w of (Inl e, w') \<Rightarrow> (Inl (f e), w') | (Inr x, w') \<Rightarrow> (Inr x, w'))"

text \<open>A call of a collaborator: the step is recorded, the collaborator's result returned.\<close>

definition perform :: "step \<Rightarrow> error + 'a \<Rightarrow> 'a action" where
  "perform s r = (\<lambda>w. (r, w\<lparr>trace := trace w @ [s]\<rparr>))"

text \<open>Reading a map field: the nil map has no entries.\<close>

definition deref :: "heap \<Rightarrow> ref option \<Rightarrow> (string \<rightharpoonup> string)" where
  "deref h r = (case r of None \<Rightarrow> Map.empty
                | Some a \<Rightarrow> if a < length h then h ! a else Map.empty)"

text \<open>\<^verbatim>\<open>make(map[string]string, n)\<close>: a new, empty map at an address not in use.\<close>

definition make_map :: "ref action" where
  "make_map = (\<lambda>w. (Inr (length (heap w)), w\<lparr>heap := heap w @ [Map.empty]\<rparr>))"

text \<open>\<^verbatim>\<open>for k, v := range src { dst[k] = v }\<close>: every entry of \<open>src\<close> is written to \<open>dst\<close>.\<close>

definition range_copy :: "ref option \<Rightarrow> ref \<Rightarrow> unit action" where
  "range_copy src dst =
     (\<lambda>w. (Inr (), w\<lparr>heap := (heap w)[dst := (heap w ! dst) ++ deref (heap w) src]\<rparr>))"

text \<open>\<^verbatim>\<open>dst[k] = v\<close>.\<close>

definition map_assign :: "ref \<Rightarrow> string \<Rightarrow> string \<Rightarrow> unit action" where
  "map_assign dst k v = (\<lambda>w. (Inr (), w\<lparr>heap := (heap w)[dst := (heap w ! dst)(k \<mapsto> v)]\<rparr>))"

text \<open>The client's \<^verbatim>\<open>Create\<close>: the request leaves the program.\<close>

definition client_Create :: "('key, 'csr) collaborators \<Rightarrow> string \<Rightarrow> CertificateRequest
    \<Rightarrow> CertificateRequest action" where
  "client_Create deps ns req =
     (\<lambda>w. (CertificateRequests_Create deps ns req,
           w\<lparr>trace := trace w @ [StepCreate], submitted := submitted w @ [(ns, req)]\<rparr>))"

subsection \<open>The PEM envelope\<close>

text \<open>
  Modelled from the spec: \<^verbatim>\<open>pem.EncodeToMemory\<close> and the parser of the envelope, which
  belong to Go's standard library (\<^verbatim>\<open>encoding/pem\<close>, \<^verbatim>\<open>encoding/base64\<close>) and are not in
  the repository. The specification asks for the standard PEM envelope, base64 of
  the binary data between the lines \<^verbatim>\<open>-----BEGIN <label>-----\<close> and
  \<^verbatim>\<open>-----END <label>-----\<close>; the definitions follow the library: the standard base64
  alphabet with \<^verbatim>\<open>=\<close> padding, lines of 64 characters, no headers.
\<close>

record Block =
  Type :: string
  Bytes :: bytes

definition encodeStd :: string where
  "encodeStd = ''ABCDEFGHIJKLMNOPQRSTUVWXYZabcdefghijklmnopqrstuvwxyz0123456789+/''"

definition enc64 :: "nat \<Rightarrow> char" where
  "enc64 v = encodeStd ! (v mod 64)"

text \<open>
  Three bytes are 24 bits, written as four characters of six bits each; a last group of
  one or two bytes is padded.
\<close>

fun base64_encode :: "bytes \<Rightarrow> string" where
  "base64_encode (a # b # c # rest) =
     (let val = of_char a * 65536 + of_char b * 256 + of_char c :: nat
      in enc64 (val div 262144) # enc64 (val div 4096) # enc64 (val div 64) # enc64 val
         # base64_encode rest)"
| "base64_encode [a, b] =
     (let val = of_char a * 65536 + of_char b * 256 :: nat
      in [enc64 (val div 262144), enc64 (val div 4096), enc64 (val div 64), CHR ''=''])"
| "base64_encode [a] =
     (let val = of_char a * 65536 :: nat
      in [enc64 (val div 262144), enc64 (val div 4096), CHR ''='', CHR ''=''])"
| "base64_encode [] = []"

definition pemLineLength :: nat where
  "pemLineLength = 64"

text \<open>The line breaker: every 64 characters, and the rest if any, are followed by a newline.\<close>

function lineBreaker :: "string \<Rightarrow> string" where
  "lineBreaker s =
     (if s = [] then []
      else take pemLineLength s @ ''\<newline>'' @ lineBreaker (drop pemLineLength s))"
  by pat_completeness auto
termination
  by (relation "measure length") (auto simp: pemLineLength_def)

declare lineBreaker.simps [simp del]

definition pemStart :: string where
  "pemStart = ''-----BEGIN ''"

definition pemEnd :: string where
  "pemEnd = ''-----END ''"

definition pemEndOfLine :: string where
  "pemEndOfLine = ''-----''"

text \<open>
  Modelled from the spec: \<^verbatim>\<open>pem.EncodeToMemory\<close> of the standard library, for a block
  without headers: the begin line, the base64 text broken into lines, the end line.
\<close>

definition pem_EncodeToMemory :: "Block \<Rightarrow> bytes" where
  "pem_EncodeToMemory b =
     pemStart @ Type b @ pemEndOfLine @ ''\<newline>''
     @ lineBreaker (base64_encode (Bytes b))
     @ pemEnd @ Type b @ pemEndOfLine @ ''\<newline>''"

text \<open>The parser: the inverse of the alphabet, of the groups of four, of the lines.\<close>

fun index_of :: "'a \<Rightarrow> 'a list \<Rightarrow> nat option" where
  "index_of x [] = None"
| "index_of x (y # ys) = (if x = y then Some 0 else map_option Suc (index_of x ys))"

definition dec64 :: "char \<Rightarrow> nat option" where
  "dec64 c = index_of c encodeStd"

definition quantum :: "nat \<Rightarrow> nat \<Rightarrow> nat \<Rightarrow> nat \<Rightarrow> nat" where
  "quantum s1 s2 s3 s4 = s1 * 262144 + s2 * 4096 + s3 * 64 + s4"

definition byte_of :: "nat \<Rightarrow> char" where
  "byte_of v = char_of (v mod 256)"

fun base64_decode :: "string \<Rightarrow> bytes option" where
  "base64_decode (c1 # c2 # c3 # c4 # rest) =
     (case (dec64 c1, dec64 c2) of
        (Some s1, Some s2) \<Rightarrow>
          if c3 = CHR ''='' \<and> c4 = CHR ''='' \<and> rest = [] then
            Some [byte_of (quantum s1 s2 0 0 div 65536)]
          else (case dec64 c3 of
            None \<Rightarrow> None
          | Some s3 \<Rightarrow>
              if c4 = CHR ''='' \<and> rest = [] then
                Some [byte_of (quantum s1 s2 s3 0 div 65536), byte_of (quantum s1 s2 s3 0 div 256)]
              else (case dec64 c4 of
                None \<Rightarrow> None
              | Some s4 \<Rightarrow>
                  map_option
                    (\<lambda>bs. byte_of (quantum s1 s2 s3 s4 div 65536)
                          # byte_of (quantum s1 s2 s3 s4 div 256)
                          # byte_of (quantum s1 s2 s3 s4) # bs)
                    (base64_decode rest)))
      | _ \<Rightarrow> None)"
| "base64_decode [] = Some []"
| "base64_decode _ = None"

fun splitLines :: "string \<Rightarrow> string list" where
  "splitLines [] = []"
| "splitLines (c # cs) =
     (if c = CHR ''\<newline>'' then [] # splitLines cs
      else (case splitLines cs of [] \<Rightarrow> [[c]] | l # ls \<Rightarrow> (c # l) # ls))"

text \<open>
  Modelled from the spec: the parser of the envelope, for the text that
  \<^verbatim>\<open>pem_EncodeToMemory\<close> writes: the first line gives the label, the lines up to the end
  line of that label are the base64 text. (\<^verbatim>\<open>pem.Decode\<close> of the library accepts more:
  text before the block, headers, blanks.)
\<close>

definition pem_Decode :: "bytes \<Rightarrow> Block option" where
  "pem_Decode data =
     (case splitLines data of
        [] \<Rightarrow> None
      | first # rest \<Rightarrow>
          if length pemStart + length pemEndOfLine \<le> length first
             \<and> prefix pemStart first \<and> suffix pemEndOfLine first
          then
            (let typ = take (length first - length pemStart - length pemEndOfLine)
                            (drop (length pemStart) first);
                 endLine = pemEnd @ typ @ pemEndOfLine
             in if endLine \<in> set rest
                then map_option (\<lambda>bs. \<lparr>Type = typ, Bytes = bs\<rparr>)
                       (base64_decode (concat (takeWhile (\<lambda>l. l \<noteq> endLine) rest)))
                else None)
          else None)"

subsection \<open>generateCSR\<close>

text \<open>
  The unsigned request is built from the certificate, the signer is decoded from the key
  bytes, the request is signed and encoded, and the result is wrapped in the envelope
  labelled \<^verbatim>\<open>CERTIFICATE REQUEST\<close>. Each of the three helper calls may return an error,
  which is returned as it is.
\<close>

definition generateCSR :: "('key, 'csr) collaborators \<Rightarrow> Certificate \<Rightarrow> bytes \<Rightarrow> bytes action" where
  "generateCSR deps crt pk =
     andThen (perform StepGenerateCSR (GenerateCSR deps crt)) (\<lambda>csr.
     andThen (perform StepDecodeKey (DecodePrivateKeyBytes deps pk)) (\<lambda>signer.
     andThen (perform StepEncodeCSR (EncodeCSR deps csr signer)) (\<lambda>csrDER.
     andThen (perform StepPemEncode
                (Inr (pem_EncodeToMemory \<lparr>Type = ''CERTIFICATE REQUEST'', Bytes = csrDER\<rparr>)))
       (\<lambda>csrPEM. returnOk csrPEM))))"

subsection \<open>buildCertificateRequest\<close>

text \<open>
  The parameter \<open>name\<close> is the one of the Go function; its body does not mention it.
  The struct literal names \<^verbatim>\<open>GenerateName\<close>, \<^verbatim>\<open>Annotations\<close> and \<^verbatim>\<open>Labels\<close> in the object
  metadata; \<^verbatim>\<open>Name\<close> and \<^verbatim>\<open>Namespace\<close> keep the zero value.
\<close>

definition buildCertificateRequest :: "('key, 'csr) collaborators \<Rightarrow> Certificate \<Rightarrow> string
    \<Rightarrow> bytes \<Rightarrow> CertificateRequest action" where
  "buildCertificateRequest deps crt name pk =
     andThen (generateCSR deps crt pk) (\<lambda>csrPEM.
     andThen make_map (\<lambda>annotations.
     andThen (range_copy (Annotations crt) annotations) (\<lambda>_.
     andThen (map_assign annotations (CRPrivateKeyAnnotationKey deps) (SecretName (Spec crt))) (\<lambda>_.
     andThen (map_assign annotations (CertificateNameKey deps) (Name crt)) (\<lambda>_.
     andThen (perform StepAssemble (Inr ())) (\<lambda>_.
     returnOk
       \<lparr>Name = [], GenerateName = Name crt @ ''-'', Namespace = [],
        Annotations = Some annotations, Labels = Labels crt,
        RequestSpec =
          \<lparr>CSRPEM = csrPEM,
           RequestDuration = Duration (Spec crt),
           RequestIssuerRef = IssuerRef (Spec crt),
           RequestIsCA = IsCA (Spec crt),
           RequestUsages = Usages (Spec crt)\<rparr>\<rparr>))))))"

subsection \<open>Run\<close>

text \<open>The body of the loop over the input objects.\<close>

definition Run_body :: "('key, 'csr) collaborators \<Rightarrow> string \<Rightarrow> Info \<Rightarrow> unit action" where
  "Run_body deps cmdNamespace info =
     andThen (wrapErr (\<lambda>err. ''failed to convert certificate into version v1alpha2: '' @ err)
               (perform StepConvertToVersion (ConvertToVersion deps (Object info)))) (\<lambda>crtObj.
     case crtObj of
       OtherObject _ \<Rightarrow> returnErr ''decoded object is not a v1alpha2 Certificate''
     | CertificateObject crt \<Rightarrow>
     andThen (perform StepPrintf (Inr ())) (\<lambda>_.
     andThen (wrapErr (\<lambda>err. ''internal error hashing certificate spec: '' @ err)
               (perform StepComputeName (ComputeCertificateRequestName deps crt))) (\<lambda>expectedReqName.
     andThen (wrapErr (\<lambda>err. ''error when generating private key'')
               (perform StepGenerateKey (GeneratePrivateKeyForCertificate deps crt))) (\<lambda>signer.
     andThen (wrapErr (\<lambda>err. ''error when encoding private key'')
               (perform StepEncodeKey (EncodePrivateKey deps signer (KeyEncoding (Spec crt))))) (\<lambda>keyData.
     andThen (buildCertificateRequest deps crt expectedReqName keyData) (\<lambda>req.
     let ns = (if Namespace crt = [] then cmdNamespace else Namespace crt) in
     andThen (wrapErr (\<lambda>err. ''error when creating CertifcateRequest through client: '' @ err)
               (client_Create deps ns req)) (\<lambda>req.
     returnOk ())))))))"

text \<open>\<^verbatim>\<open>for _, info := range infos\<close>: the first error ends the loop and the function.\<close>

fun Run_loop :: "('key, 'csr) collaborators \<Rightarrow> string \<Rightarrow> Info list \<Rightarrow> unit action" where
  "Run_loop deps cmdNamespace [] = returnOk ()"
| "Run_loop deps cmdNamespace (info # infos) =
     andThen (Run_body deps cmdNamespace info) (\<lambda>_. Run_loop deps cmdNamespace infos)"

definition Run :: "('key, 'csr) collaborators \<Rightarrow> unit action" where
  "Run deps =
     andThen (perform StepNamespace (ToRawKubeConfigLoader_Namespace deps))
       (\<lambda>(cmdNamespace, enforceNamespace).
     let r = Builder_Do deps cmdNamespace enforceNamespace in
     andThen (perform StepBuilderDo
               (case Err r of Some err \<Rightarrow> Inl (''error here: '' @ err) | None \<Rightarrow> Inr ())) (\<lambda>_.
     andThen (wrapErr (\<lambda>err. ''error here instead: '' @ err) (perform StepInfos (Infos r)))
       (\<lambda>infos.
     if length infos = 0 then returnErr ''no object passed to create certificaterequest''
     else if length infos > 1 then
       returnErr ''multiple objects passed to create certificaterequest''
     else Run_loop deps cmdNamespace infos)))"

subsection \<open>Values named in the statements\<close>

text \<open>
  The struct literal that \<^verbatim>\<open>buildCertificateRequest\<close> returns, for the request text
  \<open>csrPEM\<close> and the address \<open>a\<close> of the annotations map.
\<close>

definition assembled :: "Certificate \<Rightarrow> bytes \<Rightarrow> ref \<Rightarrow> CertificateRequest" where
  "assembled crt csrPEM a =
     \<lparr>Name = [], GenerateName = Name crt @ ''-'', Namespace = [],
      Annotations = Some a, Labels = Labels crt,
      RequestSpec =
        \<lparr>CSRPEM = csrPEM,
         RequestDuration = Duration (Spec crt),
         RequestIssuerRef = IssuerRef (Spec crt),
         RequestIsCA = IsCA (Spec crt),
         RequestUsages = Usages (Spec crt)\<rparr>\<rparr>"

text \<open>
  The content of the annotations map when \<^verbatim>\<open>buildCertificateRequest\<close> returns: the
  entries of the certificate's annotations, then the two assignments.
\<close>

definition injected :: "('key, 'csr) collaborators \<Rightarrow> Certificate \<Rightarrow> heap
    \<Rightarrow> (string \<rightharpoonup> string)" where
  "injected deps crt h =
     (deref h (Annotations crt))
       (CRPrivateKeyAnnotationKey deps \<mapsto> SecretName (Spec crt),
        CertificateNameKey deps \<mapsto> Name crt)"

text \<open>The namespace \<^verbatim>\<open>ns\<close> that \<^verbatim>\<open>Run\<close> sends the request to.\<close>

definition target_namespace :: "string \<Rightarrow> Certificate \<Rightarrow> string" where
  "target_namespace cmdNamespace crt =
     (if Namespace crt = [] then cmdNamespace else Namespace crt)"

text \<open>
  The input of an invocation is one certificate: the namespace is resolved, the builder
  reports no error and yields the single object \<open>info\<close>, which converts to \<open>crt\<close>.
\<close>

definition loads :: "('key, 'csr) collaborators \<Rightarrow> string \<Rightarrow> bool \<Rightarrow> Info \<Rightarrow> Certificate
    \<Rightarrow> bool" where
  "loads deps cmdNamespace enforceNamespace info crt \<longleftrightarrow>
     ToRawKubeConfigLoader_Namespace deps = Inr (cmdNamespace, enforceNamespace)
     \<and> Err (Builder_Do deps cmdNamespace enforceNamespace) = None
     \<and> Infos (Builder_Do deps cmdNamespace enforceNamespace) = Inr [info]
     \<and> ConvertToVersion deps (Object info) = Inr (CertificateObject crt)"

text \<open>All steps of an invocation that succeeds, in the order of the statements.\<close>

definition Run_order :: "step list" where
  "Run_order =
     [StepNamespace, StepBuilderDo, StepInfos, StepConvertToVersion, StepPrintf,
      StepComputeName, StepGenerateKey, StepEncodeKey, StepGenerateCSR, StepDecodeKey,
      StepEncodeCSR, StepPemEncode, StepAssemble, StepCreate]"

text \<open>A map field is well formed in a heap: nil, or the address of a map of the heap.\<close>

definition valid_ref :: "heap \<Rightarrow> ref option \<Rightarrow> bool" where
  "valid_ref h r = (case r of None \<Rightarrow> True | Some a \<Rightarrow> a < length h)"

text \<open>The characters of base64 text.\<close>

definition base64_chars :: "char set" where
  "base64_chars = insert (CHR ''='') (set encodeStd)"

subsection \<open>The helpers' contracts\<close>

text \<open>
  Modelled from the spec: the RequestNamer, \<^verbatim>\<open>apiutil.ComputeCertificateRequestName\<close>,
  which is called by \<^verbatim>\<open>Run\<close> and defined in another package. The specification gives its algorithm: the
  issuance-relevant subset of the spec fields is put into a stable byte representation,
  hashed, and the digest is encoded as the identifier, combined with a prefix derived
  from the certificate's name; the only error is a failure of the encoding. Which
  fields, which representation and which hash is left open there, so they are the
  fields of a record.
\<close>

record 'r RequestNamer =
  relevant :: "CertificateSpec \<Rightarrow> 'r"
  canonicalize :: "'r \<Rightarrow> error + bytes"
  hash :: "bytes \<Rightarrow> bytes"
  encode :: "bytes \<Rightarrow> string"
  namePrefix :: "string \<Rightarrow> string"

text \<open>
  Modelled from the spec: \<^verbatim>\<open>computeName\<close> of the RequestNamer, in place of
  \<^verbatim>\<open>apiutil.ComputeCertificateRequestName\<close>: canonicalize the relevant fields, hash, encode
  the digest, put the prefix derived from the name in front.
\<close>

definition computeName :: "'r RequestNamer \<Rightarrow> Certificate \<Rightarrow> error + string" where
  "computeName nm crt =
     (case canonicalize nm (relevant nm (Spec crt)) of
        Inl e \<Rightarrow> Inl (''HashingFailure: '' @ e)
      | Inr bs \<Rightarrow> Inr (namePrefix nm (Name crt) @ encode nm (hash nm bs)))"

text \<open>
  Modelled from the spec: the key algorithms a certificate spec may choose, RSA or an
  elliptic curve.
\<close>

datatype Algorithm = RSA | ECDSA

text \<open>
  Modelled from the spec: the PrivateKey, opaque key-pair material matching the
  algorithm choice of the certificate spec. What the material is made of is the
  business of the cryptography library.
\<close>

record PrivateKey =
  algorithm :: Algorithm
  material :: bytes

text \<open>The identifier of the algorithm inside a \<^verbatim>\<open>pkcs8\<close> key block.\<close>

definition algorithmIdentifier :: "Algorithm \<Rightarrow> char" where
  "algorithmIdentifier a = (case a of RSA \<Rightarrow> CHR 0x01 | ECDSA \<Rightarrow> CHR 0x02)"

text \<open>
  Modelled from the spec: the KeyCodec, in place of \<^verbatim>\<open>pki.EncodePrivateKey\<close> and
  \<^verbatim>\<open>pki.DecodePrivateKeyBytes\<close>, which are called here and defined in another package.
  The key is written as a textual key block, a PEM envelope; the encoding chosen in the
  certificate spec, \<^verbatim>\<open>pkcs1\<close> or \<^verbatim>\<open>pkcs8\<close>, selects the wire format of the block: with
  the first the label names the algorithm and the block holds the key material, with
  the second the label is \<^verbatim>\<open>PRIVATE KEY\<close> and the block holds an identifier of the
  algorithm in front of the key material. Any other encoding is the error
  \<^verbatim>\<open>UnsupportedEncoding\<close>. The layout of the key material inside the block (ASN.1) is
  not modelled: the material is a sequence of bytes.
\<close>

definition KeyCodec_encode :: "PrivateKey \<Rightarrow> string \<Rightarrow> error + bytes" where
  "KeyCodec_encode key encoding =
     (if encoding = ''pkcs1'' then
        Inr (pem_EncodeToMemory
               \<lparr>Type = (case algorithm key of RSA \<Rightarrow> ''RSA PRIVATE KEY''
                                            | ECDSA \<Rightarrow> ''EC PRIVATE KEY''),
                Bytes = material key\<rparr>)
      else if encoding = ''pkcs8'' then
        Inr (pem_EncodeToMemory
               \<lparr>Type = ''PRIVATE KEY'',
                Bytes = algorithmIdentifier (algorithm key) # material key\<rparr>)
      else Inl ''UnsupportedEncoding'')"

text \<open>
  Modelled from the spec: \<^verbatim>\<open>decode\<close> of the KeyCodec. Bytes that are no key block of one
  of the three labels, or a \<^verbatim>\<open>PRIVATE KEY\<close> block without a known algorithm identifier,
  are the error \<^verbatim>\<open>MalformedKeyData\<close>.
\<close>

definition KeyCodec_decode :: "bytes \<Rightarrow> error + PrivateKey" where
  "KeyCodec_decode data =
     (case pem_Decode data of
        None \<Rightarrow> Inl ''MalformedKeyData''
      | Some block \<Rightarrow>
          if Type block = ''RSA PRIVATE KEY'' then
            Inr \<lparr>algorithm = RSA, material = Bytes block\<rparr>
          else if Type block = ''EC PRIVATE KEY'' then
            Inr \<lparr>algorithm = ECDSA, material = Bytes block\<rparr>
          else if Type block = ''PRIVATE KEY'' then
            (case Bytes block of
               [] \<Rightarrow> Inl ''MalformedKeyData''
             | a # m \<Rightarrow>
                 if a = algorithmIdentifier RSA then Inr \<lparr>algorithm = RSA, material = m\<rparr>
                 else if a = algorithmIdentifier ECDSA then Inr \<lparr>algorithm = ECDSA, material = m\<rparr>
                 else Inl ''MalformedKeyData'')
          else Inl ''MalformedKeyData'')"

text \<open>
  Modelled from the spec: the CSR, the unsigned structure holding the subject and the
  requested extensions, built from the certificate spec; it names the algorithm of the
  key it is meant for.
\<close>

record CSR =
  subject :: string
  subjectAltNames :: "string list"
  keyUsages :: "string list"
  publicKeyAlgorithm :: Algorithm

text \<open>
  Modelled from the spec: the signed request, a structure containing a public key and
  the subject information, signed by the corresponding private key.
\<close>

record SignedCSR =
  requestInfo :: CSR
  publicKey :: bytes
  signatureAlgorithm :: Algorithm
  signatureValue :: bytes

text \<open>
  The primitives of the cryptography library, which the specification takes as given:
  the public key of a private key, the signature of bytes with a private key, the bytes
  to be signed for a request and a public key, and the binary encoding of a signed
  request.
\<close>

record library =
  publicKeyOf :: "PrivateKey \<Rightarrow> bytes"
  signBytes :: "PrivateKey \<Rightarrow> bytes \<Rightarrow> bytes"
  marshalRequestInfo :: "CSR \<Rightarrow> bytes \<Rightarrow> bytes"
  marshalSignedCSR :: "SignedCSR \<Rightarrow> bytes"

text \<open>
  Modelled from the spec: the CSRSigner, in place of \<^verbatim>\<open>pki.EncodeCSR\<close>, which is called here
  and defined in another package. The signed request embeds the public key of the
  signing key; the signature algorithm is selected from the key's algorithm and the
  signature is made with the key over the request and that public key.
\<close>

definition CSRSigner_signed :: "library \<Rightarrow> CSR \<Rightarrow> PrivateKey \<Rightarrow> SignedCSR" where
  "CSRSigner_signed lib csr key =
     \<lparr>requestInfo = csr,
      publicKey = publicKeyOf lib key,
      signatureAlgorithm = algorithm key,
      signatureValue = signBytes lib key (marshalRequestInfo lib csr (publicKeyOf lib key))\<rparr>"

text \<open>
  Modelled from the spec: \<^verbatim>\<open>sign\<close> of the CSRSigner. A request meant for a key of another
  algorithm is the fatal error \<^verbatim>\<open>IncompatibleKeyAlgorithm\<close>; otherwise the result is the
  binary encoding of the signed request.
\<close>

definition CSRSigner_sign :: "library \<Rightarrow> CSR \<Rightarrow> PrivateKey \<Rightarrow> error + bytes" where
  "CSRSigner_sign lib csr key =
     (if publicKeyAlgorithm csr \<noteq> algorithm key then Inl ''IncompatibleKeyAlgorithm''
      else Inr (marshalSignedCSR lib (CSRSigner_signed lib csr key)))"

subsection \<open>An instance\<close>

text \<open>
  The certificate of the specification's end-to-end scenario: name \<^verbatim>\<open>web\<close>, common
  name \<^verbatim>\<open>example.com\<close>, an RSA key of 2048 bits, ninety days, issuer \<^verbatim>\<open>ca-issuer\<close>, server
  authentication. Its annotations and labels are the maps at the addresses 0 and 1 of
  \<open>example_world\<close>.
\<close>

definition example_certificate :: Certificate where
  "example_certificate =
     \<lparr>Name = ''web'', GenerateName = [], Namespace = [],
      Annotations = Some 0, Labels = Some 1,
      Spec =
        \<lparr>CommonName = ''example.com'', DNSNames = [], SecretName = ''web-tls'',
         Duration = Some 7776000000000000,
         IssuerRef = \<lparr>RefName = ''ca-issuer'', RefKind = ''Issuer'', RefGroup = ''cert-manager.io''\<rparr>,
         IsCA = False, Usages = [''server auth''],
         KeyAlgorithm = ''rsa'', KeySize = 2048, KeyEncoding = ''pkcs1''\<rparr>\<rparr>"

definition example_world :: world where
  "example_world =
     \<lparr>heap = [[''team'' \<mapsto> ''platform''], [''app'' \<mapsto> ''shop'']], trace = [], submitted = []\<rparr>"

text \<open>A namer over subject, alternative names, usages and key type, with a toy digest.\<close>

definition example_namer :: "(string \<times> string list \<times> string list \<times> string \<times> int) RequestNamer" where
  "example_namer =
     \<lparr>relevant = (\<lambda>s. (CommonName s, DNSNames s, Usages s, KeyAlgorithm s, KeySize s)),
      canonicalize = (\<lambda>(cn, dns, us, alg, size). Inr (cn @ concat dns @ concat us @ alg)),
      hash = (\<lambda>bs. take 4 (rev bs)),
      encode = (\<lambda>bs. bs),
      namePrefix = (\<lambda>n. n @ ''-'')\<rparr>"

text \<open>
  Collaborators to run the command with: keys and unsigned requests are strings, the key
  generator knows RSA keys of at least 2048 bits, the codec writes the encoding's name
  in front of the key, the request builder wants a subject, the client accepts what it
  is sent. The input objects are a parameter.
\<close>

definition example_collaborators :: "Info list \<Rightarrow> (string, string) collaborators" where
  "example_collaborators infos =
     \<lparr>ToRawKubeConfigLoader_Namespace = Inr (''default'', False),
      Builder_Do = (\<lambda>cmdNamespace enforceNamespace. \<lparr>Err = None, Infos = Inr infos\<rparr>),
      ConvertToVersion = Inr,
      ComputeCertificateRequestName = computeName example_namer,
      GeneratePrivateKeyForCertificate =
        (\<lambda>crt. if KeyAlgorithm (Spec crt) = ''rsa'' \<and> 2048 \<le> KeySize (Spec crt)
               then Inr ''key-1'' else Inl ''unsupported algorithm''),
      EncodePrivateKey =
        (\<lambda>k e. if e = ''pkcs1'' \<or> e = ''pkcs8'' then Inr (e @ '':'' @ k)
               else Inl ''unsupported encoding''),
      GenerateCSR =
        (\<lambda>crt. if CommonName (Spec crt) = [] \<and> DNSNames (Spec crt) = []
               then Inl ''invalid spec'' else Inr (CommonName (Spec crt))),
      DecodePrivateKeyBytes =
        (\<lambda>bs. if prefix ''pkcs1:'' bs \<or> prefix ''pkcs8:'' bs then Inr (drop 6 bs)
              else Inl ''malformed key data''),
      EncodeCSR = (\<lambda>csr k. Inr (csr @ ''/'' @ k)),
      CRPrivateKeyAnnotationKey = ''cert-manager.io/private-key-secret-name'',
      CertificateNameKey = ''cert-manager.io/certificate-name'',
      CertificateRequests_Create = (\<lambda>ns req. Inr req)\<rparr>"

text \<open>The input of the example: the one certificate.\<close>

definition example_input :: "Info list" where
  "example_input = [\<lparr>Object = CertificateObject example_certificate\<rparr>]"

text \<open>The same certificate asking for a key algorithm the key generator does not know.\<close>

definition example_unsupported :: Certificate where
  "example_unsupported =
     example_certificate\<lparr>Spec := (Spec example_certificate)\<lparr>KeyAlgorithm := ''dsa''\<rparr>\<rparr>"

text \<open>
  The example collaborators with a namer that puts another prefix in front of the
  digest, so that it computes another identifier for the same certificate.
\<close>

definition example_renamed :: "(string, string) collaborators" where
  "example_renamed =
     (example_collaborators example_input)
       \<lparr>ComputeCertificateRequestName :=
          computeName (example_namer\<lparr>namePrefix := (\<lambda>n. ''request-'')\<rparr>)\<rparr>"

text \<open>The fixed order up to and including the step \<open>s\<close>.\<close>

definition steps_through :: "step \<Rightarrow> step list" where
  "steps_through s = takeWhile (\<lambda>x. x \<noteq> s) Run_order @ [s]"

text \<open>
  A toy library, with readable public keys and signatures, and the collaborators of the
  example with the modelled key codec and signer in place of the string codec.
\<close>

definition example_library :: library where
  "example_library =
     \<lparr>publicKeyOf = (\<lambda>key. ''public-'' @ material key),
      signBytes = (\<lambda>key tbs. ''signed-with-'' @ material key),
      marshalRequestInfo = (\<lambda>csr pub. subject csr @ '','' @ pub),
      marshalSignedCSR =
        (\<lambda>s. subject (requestInfo s) @ '','' @ publicKey s @ '','' @ signatureValue s)\<rparr>"

definition example_pki :: "(PrivateKey, CSR) collaborators" where
  "example_pki =
     \<lparr>ToRawKubeConfigLoader_Namespace = Inr (''default'', False),
      Builder_Do = (\<lambda>cmdNamespace enforceNamespace. \<lparr>Err = None, Infos = Inr example_input\<rparr>),
      ConvertToVersion = Inr,
      ComputeCertificateRequestName = computeName example_namer,
      GeneratePrivateKeyForCertificate =
        (\<lambda>crt. if KeyAlgorithm (Spec crt) = ''rsa'' \<and> 2048 \<le> KeySize (Spec crt)
               then Inr \<lparr>algorithm = RSA, material = ''key-1''\<rparr>
               else Inl ''UnsupportedAlgorithm''),
      EncodePrivateKey = KeyCodec_encode,
      GenerateCSR =
        (\<lambda>crt. if CommonName (Spec crt) = [] \<and> DNSNames (Spec crt) = []
               then Inl ''InvalidSpec''
               else Inr \<lparr>subject = CommonName (Spec crt), subjectAltNames = DNSNames (Spec crt),
                         keyUsages = Usages (Spec crt),
                         publicKeyAlgorithm =
                           (if KeyAlgorithm (Spec crt) = ''ecdsa'' then ECDSA else RSA)\<rparr>),
      DecodePrivateKeyBytes = KeyCodec_decode,
      EncodeCSR = CSRSigner_sign example_library,
      CRPrivateKeyAnnotationKey = ''cert-manager.io/private-key-secret-name'',
      CertificateNameKey = ''cert-manager.io/certificate-name'',
      CertificateRequests_Create = (\<lambda>ns req. Inr req)\<rparr>"

section \<open>Properties of the embedding\<close>

subsection \<open>Base64 and the envelope\<close>

lemma index_of_nth: "distinct xs \<Longrightarrow> i < length xs \<Longrightarrow> index_of (xs ! i) xs = Some i"
proof (induction xs arbitrary: i)
  case Nil
  then show ?case by simp
next
  case (Cons x xs)
  show ?case
  proof (cases i)
    case 0
    then show ?thesis by simp
  next
    case (Suc j)
    with Cons.prems have "xs ! j \<in> set xs" "x \<notin> set xs" "distinct xs" "j < length xs"
      by auto
    with Cons.IH [of j] Suc show ?thesis by auto
  qed
qed

lemma distinct_encodeStd: "distinct encodeStd"
  unfolding encodeStd_def by code_simp

lemma length_encodeStd: "length encodeStd = 64"
  unfolding encodeStd_def by simp

lemma dec64_enc64: "dec64 (enc64 v) = Some (v mod 64)"
  unfolding dec64_def enc64_def
  by (rule index_of_nth [OF distinct_encodeStd]) (simp add: length_encodeStd)

lemma enc64_in_alphabet: "enc64 v \<in> set encodeStd"
  unfolding enc64_def by (rule nth_mem) (simp add: length_encodeStd)

lemma alphabet_excludes:
  "CHR ''='' \<notin> set encodeStd" "CHR ''\<newline>'' \<notin> set encodeStd"
  "CHR ''-'' \<notin> set encodeStd"
  unfolding encodeStd_def by simp_all

lemma enc64_not_pad: "enc64 v \<noteq> CHR ''=''"
  using enc64_in_alphabet [of v] alphabet_excludes(1) by auto

lemma quantum_split:
  assumes "v < 16777216"
  shows "quantum (v div 262144 mod 64) (v div 4096 mod 64) (v div 64 mod 64) (v mod 64) = v"
proof -
  define x1 where "x1 = v div 64"
  define x2 where "x2 = x1 div 64"
  define x3 where "x3 = x2 div 64"
  define m0 where "m0 = v mod 64"
  define m1 where "m1 = x1 mod 64"
  define m2 where "m2 = x2 mod 64"
  have d2: "v div 4096 = x2"
    unfolding x2_def x1_def by (simp add: div_mult2_eq)
  have d3: "v div 262144 = x3"
    unfolding x3_def x2_def x1_def by (simp add: div_mult2_eq)
  have "x3 < 64"
    using assms unfolding d3 [symmetric] by (simp add: less_mult_imp_div_less)
  then have m3: "x3 mod 64 = x3" by simp
  have e0: "v = 64 * x1 + m0" unfolding x1_def m0_def by simp
  have e1: "x1 = 64 * x2 + m1" unfolding x2_def m1_def by simp
  have e2: "x2 = 64 * x3 + m2" unfolding x3_def m2_def by simp
  have "x3 * 262144 + m2 * 4096 + m1 * 64 + m0 = v"
    using e0 e1 e2 by linarith
  then show ?thesis
    unfolding quantum_def d2 d3 m3 x1_def [symmetric] m0_def [symmetric] m1_def [symmetric] m2_def [symmetric] .
qed

lemma group3:
  fixes a b c :: nat
  assumes "a < 256" "b < 256" "c < 256"
  shows "a * 65536 + b * 256 + c < 16777216"
    and "(a * 65536 + b * 256 + c) div 65536 mod 256 = a"
    and "(a * 65536 + b * 256 + c) div 256 mod 256 = b"
    and "(a * 65536 + b * 256 + c) mod 256 = c"
proof -
  let ?v = "a * 65536 + b * 256 + c"
  show "?v < 16777216" using assms by simp
  have hi: "?v = (b * 256 + c) + a * 65536" by simp
  have "b * 256 + c < 65536" using assms by simp
  then have "?v div 65536 = a"
    by (simp only: hi div_mult_self1 div_less)
  then show "?v div 65536 mod 256 = a" using assms by simp
  have lo: "?v = c + (a * 256 + b) * 256" by simp
  have "?v div 256 = a * 256 + b"
    using assms(3) by (simp only: lo div_mult_self1 div_less)
  then show "?v div 256 mod 256 = b"
    using assms(2) by (simp only: mod_mult_self3 mod_less)
  show "?v mod 256 = c"
    using assms(3) by (simp only: lo mod_mult_self1 mod_less)
qed


lemma byte_of_of_char: "byte_of (of_char a) = a"
  unfolding byte_of_def by simp

lemma decode_group3:
  fixes a b c :: char
  defines "v \<equiv> of_char a * 65536 + of_char b * 256 + of_char c :: nat"
  shows "byte_of (quantum (v div 262144 mod 64) (v div 4096 mod 64) (v div 64 mod 64) (v mod 64) div 65536) = a"
    and "byte_of (quantum (v div 262144 mod 64) (v div 4096 mod 64) (v div 64 mod 64) (v mod 64) div 256) = b"
    and "byte_of (quantum (v div 262144 mod 64) (v div 4096 mod 64) (v div 64 mod 64) (v mod 64)) = c"
proof -
  have bnd: "(of_char a :: nat) < 256" "(of_char b :: nat) < 256" "(of_char c :: nat) < 256"
    by simp_all
  note g = group3 [OF bnd, folded v_def]
  have q: "quantum (v div 262144 mod 64) (v div 4096 mod 64) (v div 64 mod 64) (v mod 64) = v"
    by (rule quantum_split [OF g(1)])
  show "byte_of (quantum (v div 262144 mod 64) (v div 4096 mod 64) (v div 64 mod 64) (v mod 64) div 65536) = a"
    unfolding q byte_of_def g(2) by simp
  show "byte_of (quantum (v div 262144 mod 64) (v div 4096 mod 64) (v div 64 mod 64) (v mod 64) div 256) = b"
    unfolding q byte_of_def g(3) by simp
  show "byte_of (quantum (v div 262144 mod 64) (v div 4096 mod 64) (v div 64 mod 64) (v mod 64)) = c"
    unfolding q byte_of_def g(4) by simp
qed

lemma low_sextets_zero:
  fixes n :: nat
  shows "n * 256 mod 64 = 0" "n * 65536 mod 64 = 0" "n * 65536 div 64 mod 64 = 0"
proof -
  have a: "n * 256 = (n * 4) * 64" by simp
  show "n * 256 mod 64 = 0" by (simp only: a mod_mult_self2_is_0)
  have b: "n * 65536 = (n * 1024) * 64" by simp
  show "n * 65536 mod 64 = 0" by (simp only: b mod_mult_self2_is_0)
  have c: "n * 1024 = (n * 16) * 64" by simp
  have "n * 65536 div 64 = n * 1024" by (simp only: b nonzero_mult_div_cancel_right)
  then show "n * 65536 div 64 mod 64 = 0" by (simp only: c mod_mult_self2_is_0)
qed

lemma decode_group2:
  fixes a b :: char
  defines "v \<equiv> of_char a * 65536 + of_char b * 256 :: nat"
  shows "byte_of (quantum (v div 262144 mod 64) (v div 4096 mod 64) (v div 64 mod 64) 0 div 65536) = a"
    and "byte_of (quantum (v div 262144 mod 64) (v div 4096 mod 64) (v div 64 mod 64) 0 div 256) = b"
proof -
  have v0: "v = of_char a * 65536 + of_char b * 256 + of_char (CHR 0x00)"
    unfolding v_def by simp
  have z: "v mod 64 = 0"
    unfolding v_def using low_sextets_zero(1) [of "of_char b"] low_sextets_zero(2) [of "of_char a"]
    by (simp add: mod_add_eq [symmetric, of "of_char a * 65536"])
  show "byte_of (quantum (v div 262144 mod 64) (v div 4096 mod 64) (v div 64 mod 64) 0 div 65536) = a"
    using decode_group3(1) [of a b "CHR 0x00", folded v0] unfolding z .
  show "byte_of (quantum (v div 262144 mod 64) (v div 4096 mod 64) (v div 64 mod 64) 0 div 256) = b"
    using decode_group3(2) [of a b "CHR 0x00", folded v0] unfolding z .
qed


lemma decode_group1:
  fixes a :: char
  defines "v \<equiv> of_char a * 65536 :: nat"
  shows "byte_of (quantum (v div 262144 mod 64) (v div 4096 mod 64) 0 0 div 65536) = a"
proof -
  have v0: "v = of_char a * 65536 + of_char (CHR 0x00) * 256"
    unfolding v_def by simp
  have z: "v div 64 mod 64 = 0"
    unfolding v_def by (rule low_sextets_zero(3))
  show ?thesis
    using decode_group2(1) [of a "CHR 0x00", folded v0] unfolding z .
qed

lemma decode_quad:
  "base64_decode (enc64 x1 # enc64 x2 # enc64 x3 # enc64 x4 # rest) =
     map_option
       (\<lambda>bs. byte_of (quantum (x1 mod 64) (x2 mod 64) (x3 mod 64) (x4 mod 64) div 65536)
             # byte_of (quantum (x1 mod 64) (x2 mod 64) (x3 mod 64) (x4 mod 64) div 256)
             # byte_of (quantum (x1 mod 64) (x2 mod 64) (x3 mod 64) (x4 mod 64)) # bs)
       (base64_decode rest)"
  by (simp add: dec64_enc64 enc64_not_pad)

lemma decode_pad1:
  "base64_decode [enc64 x1, enc64 x2, enc64 x3, CHR ''=''] =
     Some [byte_of (quantum (x1 mod 64) (x2 mod 64) (x3 mod 64) 0 div 65536),
           byte_of (quantum (x1 mod 64) (x2 mod 64) (x3 mod 64) 0 div 256)]"
  by (simp add: dec64_enc64 enc64_not_pad)

lemma decode_pad2:
  "base64_decode [enc64 x1, enc64 x2, CHR ''='', CHR ''=''] =
     Some [byte_of (quantum (x1 mod 64) (x2 mod 64) 0 0 div 65536)]"
  by (simp add: dec64_enc64)

lemma base64_roundtrip: "base64_decode (base64_encode bs) = Some bs"
proof (induction bs rule: base64_encode.induct)
  case (1 a b c rest)
  then have "base64_decode (base64_encode rest) = Some rest"
    by simp
  then show ?case
    by (simp only: base64_encode.simps Let_def decode_quad decode_group3 option.map)
next
  case (2 a b)
  show ?case
    by (simp only: base64_encode.simps Let_def decode_pad1 decode_group2)
next
  case (3 a)
  show ?case
    by (simp only: base64_encode.simps Let_def decode_pad2 decode_group1)
next
  case 4
  show ?case by simp
qed

lemma base64_encode_chars: "set (base64_encode bs) \<subseteq> base64_chars"
  by (induction bs rule: base64_encode.induct)
     (simp_all add: Let_def base64_chars_def enc64_in_alphabet)

lemma base64_chars_excludes:
  "CHR ''\<newline>'' \<notin> base64_chars" "CHR ''-'' \<notin> base64_chars"
  unfolding base64_chars_def using alphabet_excludes by simp_all

lemma splitLines_line:
  "CHR ''\<newline>'' \<notin> set l \<Longrightarrow> splitLines (l @ CHR ''\<newline>'' # rest) = l # splitLines rest"
  by (induction l) auto

lemma lineBreaker_empty: "lineBreaker [] = []"
  by (subst lineBreaker.simps) simp

lemma lineBreaker_short:
  "s \<noteq> [] \<Longrightarrow> length s \<le> 64 \<Longrightarrow> lineBreaker s = s @ ''\<newline>''"
  by (subst lineBreaker.simps) (simp add: pemLineLength_def lineBreaker_empty)

lemma splitLines_lineBreaker:
  "CHR ''\<newline>'' \<notin> set s \<Longrightarrow>
     \<exists>ls. splitLines (lineBreaker s @ t) = ls @ splitLines t
        \<and> concat ls = s \<and> (\<forall>l \<in> set ls. l \<noteq> [] \<and> set l \<subseteq> set s)"
proof (induction s rule: lineBreaker.induct)
  case (1 s)
  show ?case
  proof (cases "s = []")
    case True
    then show ?thesis by (simp add: lineBreaker_empty)
  next
    case False
    have nl: "CHR ''\<newline>'' \<notin> set (take pemLineLength s)" "CHR ''\<newline>'' \<notin> set (drop pemLineLength s)"
      using "1.prems" by (auto dest: in_set_takeD in_set_dropD)
    from "1.IH" [OF False nl(2)] obtain ls where
      ls: "splitLines (lineBreaker (drop pemLineLength s) @ t) = ls @ splitLines t"
          "concat ls = drop pemLineLength s"
          "\<forall>l \<in> set ls. l \<noteq> [] \<and> set l \<subseteq> set (drop pemLineLength s)"
      by blast
    have unfold: "lineBreaker s @ t
        = take pemLineLength s @ CHR ''\<newline>'' # (lineBreaker (drop pemLineLength s) @ t)"
      using False by (subst lineBreaker.simps) simp
    have split: "splitLines (lineBreaker s @ t) = (take pemLineLength s # ls) @ splitLines t"
      unfolding unfold splitLines_line [OF nl(1)] ls(1) by simp
    have "take pemLineLength s \<noteq> []"
      using False by (simp add: pemLineLength_def)
    moreover have "\<forall>l \<in> set ls. l \<noteq> [] \<and> set l \<subseteq> set s"
      using ls(3) by (auto dest: in_set_dropD)
    moreover have "set (take pemLineLength s) \<subseteq> set s"
      by (rule set_take_subset)
    moreover have "concat (take pemLineLength s # ls) = s"
      using ls(2) by simp
    ultimately show ?thesis
      using split by (intro exI [of _ "take pemLineLength s # ls"]) simp
  qed
qed


lemma pem_Decode_EncodeToMemory:
  assumes "CHR ''\<newline>'' \<notin> set (Type b)"
  shows "pem_Decode (pem_EncodeToMemory b) = Some b"
proof -
  define first where "first = pemStart @ Type b @ pemEndOfLine"
  define endLine where "endLine = pemEnd @ Type b @ pemEndOfLine"
  define e where "e = base64_encode (Bytes b)"
  have nl_first: "CHR ''\<newline>'' \<notin> set first"
    using assms by (simp add: first_def pemStart_def pemEndOfLine_def)
  have nl_end: "CHR ''\<newline>'' \<notin> set endLine"
    using assms by (simp add: endLine_def pemEnd_def pemEndOfLine_def)
  have nl_e: "CHR ''\<newline>'' \<notin> set e"
    using base64_encode_chars [of "Bytes b"] base64_chars_excludes(1) by (auto simp: e_def)
  have data: "pem_EncodeToMemory b
      = first @ CHR ''\<newline>'' # (lineBreaker e @ (endLine @ CHR ''\<newline>'' # []))"
    by (simp add: pem_EncodeToMemory_def first_def endLine_def e_def)
  obtain ls where ls: "splitLines (lineBreaker e @ (endLine @ CHR ''\<newline>'' # []))
        = ls @ splitLines (endLine @ CHR ''\<newline>'' # [])"
      "concat ls = e" "\<forall>l \<in> set ls. l \<noteq> [] \<and> set l \<subseteq> set e"
    using splitLines_lineBreaker [OF nl_e] by blast
  have lines: "splitLines (pem_EncodeToMemory b) = first # (ls @ [endLine])"
    unfolding data splitLines_line [OF nl_first] ls(1) splitLines_line [OF nl_end] by simp
  have dash: "CHR ''-'' \<in> set endLine"
    by (simp add: endLine_def pemEnd_def)
  have no_end: "\<forall>l \<in> set ls. l \<noteq> endLine"
  proof
    fix l assume "l \<in> set ls"
    with ls(3) have "set l \<subseteq> base64_chars"
      using base64_encode_chars [of "Bytes b"] by (auto simp: e_def)
    with base64_chars_excludes(2) dash show "l \<noteq> endLine" by auto
  qed
  have body: "takeWhile (\<lambda>l. l \<noteq> endLine) (ls @ [endLine]) = ls"
    using no_end by (simp add: takeWhile_append2)
  have label: "take (length first - length pemStart - length pemEndOfLine)
                  (drop (length pemStart) first) = Type b"
    by (simp add: first_def)
  have shape: "length pemStart + length pemEndOfLine \<le> length first"
      "prefix pemStart first" "suffix pemEndOfLine first"
    by (simp_all add: first_def suffix_def)
  have "pem_Decode (pem_EncodeToMemory b)
      = map_option (\<lambda>bs. \<lparr>Type = Type b, Bytes = bs\<rparr>) (base64_decode (concat ls))"
    unfolding pem_Decode_def lines
    by (simp only: list.case shape label Let_def endLine_def [symmetric] body simp_thms if_True)
       simp
  then show ?thesis
    by (simp add: ls(2) e_def base64_roundtrip)
qed

lemma pem_label_roundtrip:
  "pem_Decode (pem_EncodeToMemory \<lparr>Type = ''CERTIFICATE REQUEST'', Bytes = der\<rparr>)
     = Some \<lparr>Type = ''CERTIFICATE REQUEST'', Bytes = der\<rparr>"
  by (rule pem_Decode_EncodeToMemory) simp

subsection \<open>What the functions return\<close>

lemmas action_defs = andThen_def perform_def wrapErr_def returnOk_def returnErr_def

lemma generateCSR_result:
  "generateCSR deps crt pk w =
     (case GenerateCSR deps crt of
        Inl e \<Rightarrow> (Inl e, w\<lparr>trace := trace w @ [StepGenerateCSR]\<rparr>)
      | Inr csr \<Rightarrow>
          (case DecodePrivateKeyBytes deps pk of
             Inl e \<Rightarrow> (Inl e, w\<lparr>trace := trace w @ [StepGenerateCSR, StepDecodeKey]\<rparr>)
           | Inr signer \<Rightarrow>
               (case EncodeCSR deps csr signer of
                  Inl e \<Rightarrow>
                    (Inl e, w\<lparr>trace := trace w @ [StepGenerateCSR, StepDecodeKey, StepEncodeCSR]\<rparr>)
                | Inr csrDER \<Rightarrow>
                    (Inr (pem_EncodeToMemory \<lparr>Type = ''CERTIFICATE REQUEST'', Bytes = csrDER\<rparr>),
                     w\<lparr>trace := trace w @ [StepGenerateCSR, StepDecodeKey, StepEncodeCSR,
                                           StepPemEncode]\<rparr>))))"
  unfolding generateCSR_def action_defs by (simp split: sum.splits)

lemma deref_fresh: "deref (h @ [Map.empty]) r = deref h r"
  unfolding deref_def by (auto simp: nth_append less_Suc_eq split: option.splits)

lemma buildCertificateRequest_result:
  "buildCertificateRequest deps crt name pk w =
     (case generateCSR deps crt pk w of
        (Inl e, w1) \<Rightarrow> (Inl e, w1)
      | (Inr csrPEM, w1) \<Rightarrow>
          (Inr (assembled crt csrPEM (length (heap w1))),
           w1\<lparr>heap := heap w1 @ [injected deps crt (heap w1)],
              trace := trace w1 @ [StepAssemble]\<rparr>))"
  unfolding buildCertificateRequest_def action_defs make_map_def range_copy_def map_assign_def
    assembled_def injected_def
  by (simp add: deref_fresh split: sum.splits prod.splits)


lemma Run_body_convert_error:
  "ConvertToVersion deps (Object info) = Inl e \<Longrightarrow>
   Run_body deps cmdNamespace info w =
     (Inl (''failed to convert certificate into version v1alpha2: '' @ e),
      w\<lparr>trace := trace w @ [StepConvertToVersion]\<rparr>)"
  unfolding Run_body_def action_defs by simp

lemma Run_body_other_object:
  "ConvertToVersion deps (Object info) = Inr (OtherObject k) \<Longrightarrow>
   Run_body deps cmdNamespace info w =
     (Inl ''decoded object is not a v1alpha2 Certificate'',
      w\<lparr>trace := trace w @ [StepConvertToVersion]\<rparr>)"
  unfolding Run_body_def action_defs by simp

lemma Run_body_certificate:
  assumes "ConvertToVersion deps (Object info) = Inr (CertificateObject crt)"
  shows "Run_body deps cmdNamespace info w =
     (case ComputeCertificateRequestName deps crt of
        Inl e \<Rightarrow>
          (Inl (''internal error hashing certificate spec: '' @ e),
           w\<lparr>trace := trace w @ [StepConvertToVersion, StepPrintf, StepComputeName]\<rparr>)
      | Inr expectedReqName \<Rightarrow>
     (case GeneratePrivateKeyForCertificate deps crt of
        Inl e \<Rightarrow>
          (Inl ''error when generating private key'',
           w\<lparr>trace := trace w @ [StepConvertToVersion, StepPrintf, StepComputeName,
                                 StepGenerateKey]\<rparr>)
      | Inr signer \<Rightarrow>
     (case EncodePrivateKey deps signer (KeyEncoding (Spec crt)) of
        Inl e \<Rightarrow>
          (Inl ''error when encoding private key'',
           w\<lparr>trace := trace w @ [StepConvertToVersion, StepPrintf, StepComputeName,
                                 StepGenerateKey, StepEncodeKey]\<rparr>)
      | Inr keyData \<Rightarrow>
     (case buildCertificateRequest deps crt expectedReqName keyData
             (w\<lparr>trace := trace w @ [StepConvertToVersion, StepPrintf, StepComputeName,
                                    StepGenerateKey, StepEncodeKey]\<rparr>) of
        (Inl e, w1) \<Rightarrow> (Inl e, w1)
      | (Inr req, w1) \<Rightarrow>
          (case CertificateRequests_Create deps (target_namespace cmdNamespace crt) req of
             Inl e \<Rightarrow> Inl (''error when creating CertifcateRequest through client: '' @ e)
           | Inr created \<Rightarrow> Inr (),
           w1\<lparr>trace := trace w1 @ [StepCreate],
              submitted := submitted w1 @ [(target_namespace cmdNamespace crt, req)]\<rparr>)))))"
  unfolding Run_body_def action_defs client_Create_def target_namespace_def
  using assms by (simp split: sum.splits prod.splits)

lemma Run_result:
  "Run deps w =
     (case ToRawKubeConfigLoader_Namespace deps of
        Inl e \<Rightarrow> (Inl e, w\<lparr>trace := trace w @ [StepNamespace]\<rparr>)
      | Inr (cmdNamespace, enforceNamespace) \<Rightarrow>
     (case Err (Builder_Do deps cmdNamespace enforceNamespace) of
        Some e \<Rightarrow>
          (Inl (''error here: '' @ e), w\<lparr>trace := trace w @ [StepNamespace, StepBuilderDo]\<rparr>)
      | None \<Rightarrow>
     (case Infos (Builder_Do deps cmdNamespace enforceNamespace) of
        Inl e \<Rightarrow>
          (Inl (''error here instead: '' @ e),
           w\<lparr>trace := trace w @ [StepNamespace, StepBuilderDo, StepInfos]\<rparr>)
      | Inr [] \<Rightarrow>
          (Inl ''no object passed to create certificaterequest'',
           w\<lparr>trace := trace w @ [StepNamespace, StepBuilderDo, StepInfos]\<rparr>)
      | Inr [info] \<Rightarrow>
          Run_body deps cmdNamespace info
            (w\<lparr>trace := trace w @ [StepNamespace, StepBuilderDo, StepInfos]\<rparr>)
      | Inr (info # info' # infos) \<Rightarrow>
          (Inl ''multiple objects passed to create certificaterequest'',
           w\<lparr>trace := trace w @ [StepNamespace, StepBuilderDo, StepInfos]\<rparr>))))"
  unfolding Run_def
  by (simp add: action_defs Let_def split: sum.splits prod.splits option.splits list.splits)


lemma generateCSR_frame:
  "heap (snd (generateCSR deps crt pk w)) = heap w"
  "submitted (snd (generateCSR deps crt pk w)) = submitted w"
  unfolding generateCSR_result by (simp_all split: sum.splits)

lemma example_generateCSR:
  "generateCSR (example_collaborators infos) example_certificate ''pkcs1:key-1'' example_world =
     (Inr (pem_EncodeToMemory \<lparr>Type = ''CERTIFICATE REQUEST'', Bytes = ''example.com/key-1''\<rparr>),
      example_world\<lparr>trace := [StepGenerateCSR, StepDecodeKey, StepEncodeCSR, StepPemEncode]\<rparr>)"
  unfolding generateCSR_result
  by (simp add: example_collaborators_def example_certificate_def example_world_def)

lemma example_envelope:
  "pem_EncodeToMemory \<lparr>Type = ''CERTIFICATE REQUEST'', Bytes = ''example.com/key-1''\<rparr> =
     ''-----BEGIN CERTIFICATE REQUEST-----\<newline>ZXhhbXBsZS5jb20va2V5LTE=\<newline>-----END CERTIFICATE REQUEST-----\<newline>''"
proof -
  have "base64_encode ''example.com/key-1'' = ''ZXhhbXBsZS5jb20va2V5LTE=''"
    by (simp add: enc64_def encodeStd_def)
  then have "lineBreaker (base64_encode ''example.com/key-1'') = ''ZXhhbXBsZS5jb20va2V5LTE=\<newline>''"
    by (simp add: lineBreaker_short)
  then show ?thesis
    by (simp add: pem_EncodeToMemory_def pemStart_def pemEnd_def pemEndOfLine_def)
qed

lemma buildCertificateRequest_success:
  assumes "fst (generateCSR deps crt pk w) = Inr csrPEM"
  shows "buildCertificateRequest deps crt name pk w =
     (Inr (assembled crt csrPEM (length (heap w))),
      (snd (generateCSR deps crt pk w))
        \<lparr>heap := heap w @ [injected deps crt (heap w)],
         trace := trace (snd (generateCSR deps crt pk w)) @ [StepAssemble]\<rparr>)"
proof -
  obtain w1 where g: "generateCSR deps crt pk w = (Inr csrPEM, w1)"
    using assms by (cases "generateCSR deps crt pk w") simp
  have "heap w1 = heap w"
    using generateCSR_frame(1) [of deps crt pk w] unfolding g by simp
  then show ?thesis
    unfolding buildCertificateRequest_result g by simp
qed

lemma buildCertificateRequest_heap:
  "heap (snd (buildCertificateRequest deps crt name pk w)) = heap w
   \<or> heap (snd (buildCertificateRequest deps crt name pk w)) = heap w @ [injected deps crt (heap w)]"
proof (cases "generateCSR deps crt pk w")
  case (Pair r w1)
  have "heap w1 = heap w"
    using generateCSR_frame(1) [of deps crt pk w] unfolding Pair by simp
  then show ?thesis
    unfolding buildCertificateRequest_result Pair by (cases r) simp_all
qed

lemma deref_new: "deref (h @ [m]) (Some (length h)) = m"
  unfolding deref_def by simp

lemma deref_old: "valid_ref h r \<Longrightarrow> deref (h @ [m]) r = deref h r"
  unfolding deref_def valid_ref_def by (auto simp: nth_append split: option.splits)

lemma buildCertificateRequest_Inr:
  assumes "fst (buildCertificateRequest deps crt name pk w) = Inr cr"
  shows "\<exists>csrPEM. fst (generateCSR deps crt pk w) = Inr csrPEM
           \<and> cr = assembled crt csrPEM (length (heap w))"
proof (cases "generateCSR deps crt pk w")
  case (Pair r w1)
  have h: "heap w1 = heap w"
    using generateCSR_frame(1) [of deps crt pk w] unfolding Pair by simp
  from assms show ?thesis
    unfolding buildCertificateRequest_result Pair by (cases r) (simp_all add: h)
qed

lemma Run_loaded:
  assumes "loads deps cmdNamespace enforceNamespace info crt"
  shows "Run deps w = Run_body deps cmdNamespace info
                        (w\<lparr>trace := trace w @ [StepNamespace, StepBuilderDo, StepInfos]\<rparr>)"
  unfolding Run_result using assms by (simp add: loads_def)

lemma loads_convert:
  "loads deps cmdNamespace enforceNamespace info crt \<Longrightarrow>
   ConvertToVersion deps (Object info) = Inr (CertificateObject crt)"
  by (simp add: loads_def)

lemmas build_results = buildCertificateRequest_result generateCSR_result

lemma Run_success:
  assumes "loads deps cmdNamespace enforceNamespace info crt"
    and "ComputeCertificateRequestName deps crt = Inr n"
    and "GeneratePrivateKeyForCertificate deps crt = Inr k"
    and "EncodePrivateKey deps k (KeyEncoding (Spec crt)) = Inr keyData"
    and "GenerateCSR deps crt = Inr csr"
    and "DecodePrivateKeyBytes deps keyData = Inr signer"
    and "EncodeCSR deps csr signer = Inr csrDER"
    and "CertificateRequests_Create deps (target_namespace cmdNamespace crt)
           (assembled crt (pem_EncodeToMemory \<lparr>Type = ''CERTIFICATE REQUEST'', Bytes = csrDER\<rparr>)
              (length (heap w))) = Inr created"
  shows "Run deps w =
     (Inr (),
      w\<lparr>heap := heap w @ [injected deps crt (heap w)],
        trace := trace w @ Run_order,
        submitted := submitted w @
          [(target_namespace cmdNamespace crt,
            assembled crt (pem_EncodeToMemory \<lparr>Type = ''CERTIFICATE REQUEST'', Bytes = csrDER\<rparr>)
              (length (heap w)))]\<rparr>)"
  unfolding Run_loaded [OF assms(1)] Run_body_certificate [OF loads_convert [OF assms(1)]] build_results
  using assms(2-) by (simp add: Run_order_def)

lemma Run_body_steps:
  "\<exists>steps. trace (snd (Run_body deps cmdNamespace info w)) = trace w @ steps
     \<and> prefix steps (drop 3 Run_order)
     \<and> (fst (Run_body deps cmdNamespace info w) = Inr () \<longrightarrow> steps = drop 3 Run_order)"
proof (cases "ConvertToVersion deps (Object info)")
  case (Inl e)
  show ?thesis
    unfolding Run_body_convert_error [OF Inl] by (simp add: Run_order_def)
next
  case (Inr obj)
  show ?thesis
  proof (cases obj)
    case (OtherObject kind)
    show ?thesis
      unfolding Run_body_other_object [OF Inr [unfolded OtherObject]] by (simp add: Run_order_def)
  next
    case (CertificateObject crt)
    show ?thesis
      unfolding Run_body_certificate [OF Inr [unfolded CertificateObject]] build_results
      by (simp add: Run_order_def split: sum.splits)
  qed
qed


subsection \<open>The example invocation\<close>

lemma example_loads:
  "loads (example_collaborators [\<lparr>Object = CertificateObject crt\<rparr>]) ''default'' False
     \<lparr>Object = CertificateObject crt\<rparr> crt"
  by (simp add: loads_def example_collaborators_def)

lemma example_Run:
  "Run (example_collaborators example_input) example_world =
     (Inr (),
      \<lparr>heap = [[''team'' \<mapsto> ''platform''], [''app'' \<mapsto> ''shop''],
               [''team'' \<mapsto> ''platform'',
                ''cert-manager.io/private-key-secret-name'' \<mapsto> ''web-tls'',
                ''cert-manager.io/certificate-name'' \<mapsto> ''web'']],
       trace = Run_order,
       submitted =
         [(''default'',
           assembled example_certificate
             (pem_EncodeToMemory \<lparr>Type = ''CERTIFICATE REQUEST'', Bytes = ''example.com/key-1''\<rparr>)
             2)]\<rparr>)"
proof -
  have steps:
    "ComputeCertificateRequestName (example_collaborators example_input) example_certificate
       = Inr ''web-asrh''"
    "GeneratePrivateKeyForCertificate (example_collaborators example_input) example_certificate
       = Inr ''key-1''"
    "EncodePrivateKey (example_collaborators example_input) ''key-1''
       (KeyEncoding (Spec example_certificate)) = Inr ''pkcs1:key-1''"
    "GenerateCSR (example_collaborators example_input) example_certificate = Inr ''example.com''"
    "DecodePrivateKeyBytes (example_collaborators example_input) ''pkcs1:key-1'' = Inr ''key-1''"
    "EncodeCSR (example_collaborators example_input) ''example.com'' ''key-1''
       = Inr ''example.com/key-1''"
    by (simp_all add: example_collaborators_def example_certificate_def computeName_def
          example_namer_def)
  have sent: "CertificateRequests_Create (example_collaborators example_input)
      (target_namespace ''default'' example_certificate)
      (assembled example_certificate
         (pem_EncodeToMemory \<lparr>Type = ''CERTIFICATE REQUEST'', Bytes = ''example.com/key-1''\<rparr>)
         (length (heap example_world)))
    = Inr (assembled example_certificate
         (pem_EncodeToMemory \<lparr>Type = ''CERTIFICATE REQUEST'', Bytes = ''example.com/key-1''\<rparr>)
         (length (heap example_world)))"
    by (simp add: example_collaborators_def)
  have l: "loads (example_collaborators example_input) ''default'' False
     \<lparr>Object = CertificateObject example_certificate\<rparr> example_certificate"
    unfolding example_input_def by (rule example_loads)
  show ?thesis
    unfolding Run_success [OF l steps sent]
    by (simp add: example_world_def injected_def deref_def target_namespace_def
          example_certificate_def example_collaborators_def numeral_2_eq_2)
qed

subsection \<open>Invocations that succeed\<close>

lemma Run_Inr_steps:
  assumes "loads deps cmdNamespace enforceNamespace info crt"
    and "fst (Run deps w) = Inr ()"
  shows "\<exists>n k keyData csr signer csrDER created.
      ComputeCertificateRequestName deps crt = Inr n
    \<and> GeneratePrivateKeyForCertificate deps crt = Inr k
    \<and> EncodePrivateKey deps k (KeyEncoding (Spec crt)) = Inr keyData
    \<and> GenerateCSR deps crt = Inr csr
    \<and> DecodePrivateKeyBytes deps keyData = Inr signer
    \<and> EncodeCSR deps csr signer = Inr csrDER
    \<and> CertificateRequests_Create deps (target_namespace cmdNamespace crt)
         (assembled crt (pem_EncodeToMemory \<lparr>Type = ''CERTIFICATE REQUEST'', Bytes = csrDER\<rparr>)
            (length (heap w))) = Inr created"
  using assms(2)
  unfolding Run_loaded [OF assms(1)] Run_body_certificate [OF loads_convert [OF assms(1)]]
    build_results
  by (auto split: sum.splits)

lemma Run_other_namer:
  assumes "loads deps cmdNamespace enforceNamespace info crt"
    and "ComputeCertificateRequestName deps crt = Inr n"
    and "namer crt = Inr n'"
  shows "Run (deps\<lparr>ComputeCertificateRequestName := namer\<rparr>) w = Run deps w"
proof -
  have l: "loads (deps\<lparr>ComputeCertificateRequestName := namer\<rparr>) cmdNamespace enforceNamespace
      info crt"
    using assms(1) by (simp add: loads_def)
  show ?thesis
    unfolding Run_loaded [OF assms(1)] Run_loaded [OF l]
      Run_body_certificate [OF loads_convert [OF assms(1)]]
      Run_body_certificate [OF loads_convert [OF l]] build_results
    using assms(2,3) by (simp add: injected_def split: sum.splits)
qed

subsection \<open>The modelled key codec and signer\<close>

lemma KeyCodec_roundtrip:
  assumes "KeyCodec_encode key encoding = Inr data"
  shows "KeyCodec_decode data = Inr key"
proof (cases "encoding = ''pkcs1''")
  case True
  with assms have data: "data = pem_EncodeToMemory
               \<lparr>Type = (case algorithm key of RSA \<Rightarrow> ''RSA PRIVATE KEY''
                                            | ECDSA \<Rightarrow> ''EC PRIVATE KEY''),
                Bytes = material key\<rparr>"
    by (simp add: KeyCodec_encode_def)
  have "pem_Decode data = Some
               \<lparr>Type = (case algorithm key of RSA \<Rightarrow> ''RSA PRIVATE KEY''
                                            | ECDSA \<Rightarrow> ''EC PRIVATE KEY''),
                Bytes = material key\<rparr>"
    unfolding data by (rule pem_Decode_EncodeToMemory) (simp split: Algorithm.splits)
  then show ?thesis
    by (cases "algorithm key") (simp_all add: KeyCodec_decode_def)
next
  case False
  with assms have e: "encoding = ''pkcs8''"
    by (auto simp: KeyCodec_encode_def split: if_splits)
  with assms have data: "data = pem_EncodeToMemory
               \<lparr>Type = ''PRIVATE KEY'',
                Bytes = algorithmIdentifier (algorithm key) # material key\<rparr>"
    by (simp add: KeyCodec_encode_def)
  have "pem_Decode data = Some
               \<lparr>Type = ''PRIVATE KEY'',
                Bytes = algorithmIdentifier (algorithm key) # material key\<rparr>"
    unfolding data by (rule pem_Decode_EncodeToMemory) simp
  then show ?thesis
    by (cases "algorithm key") (simp_all add: KeyCodec_decode_def algorithmIdentifier_def)
qed


lemma example_pki_steps:
  "ComputeCertificateRequestName example_pki example_certificate = Inr ''web-asrh''"
  "GeneratePrivateKeyForCertificate example_pki example_certificate
     = Inr \<lparr>algorithm = RSA, material = ''key-1''\<rparr>"
  "EncodePrivateKey example_pki = KeyCodec_encode"
  "DecodePrivateKeyBytes example_pki = KeyCodec_decode"
  "EncodeCSR example_pki = CSRSigner_sign example_library"
  "KeyEncoding (Spec example_certificate) = ''pkcs1''"
  "GenerateCSR example_pki example_certificate
     = Inr \<lparr>subject = ''example.com'', subjectAltNames = [], keyUsages = [''server auth''],
            publicKeyAlgorithm = RSA\<rparr>"
  by (simp_all add: example_pki_def example_certificate_def computeName_def example_namer_def)

lemma example_pki_encoded:
  "KeyCodec_encode \<lparr>algorithm = RSA, material = ''key-1''\<rparr> ''pkcs1''
     = Inr (pem_EncodeToMemory \<lparr>Type = ''RSA PRIVATE KEY'', Bytes = ''key-1''\<rparr>)"
  by (simp add: KeyCodec_encode_def)

lemma example_pki_signed:
  "CSRSigner_sign example_library
     \<lparr>subject = ''example.com'', subjectAltNames = [], keyUsages = [''server auth''],
      publicKeyAlgorithm = RSA\<rparr>
     \<lparr>algorithm = RSA, material = ''key-1''\<rparr>
   = Inr ''example.com,public-key-1,signed-with-key-1''"
  by (simp add: CSRSigner_sign_def CSRSigner_signed_def example_library_def)


section \<open>The claims\<close>

text \<open>
  Claim C4. When \<^verbatim>\<open>generateCSR\<close> succeeds, its output is the signed request (the bytes
  that \<^verbatim>\<open>EncodeCSR\<close> returned) in the PEM envelope labelled \<^verbatim>\<open>CERTIFICATE REQUEST\<close>:
  the line \<^verbatim>\<open>-----BEGIN CERTIFICATE REQUEST-----\<close>, the base64 text in lines of 64
  characters, the line \<^verbatim>\<open>-----END CERTIFICATE REQUEST-----\<close>; and parsing the envelope
  gives back the label and exactly the bytes that were wrapped.
\<close>

theorem generateCSR_pem_envelope:
  assumes "generateCSR deps crt pk w = (Inr csrPEM, w')"
  shows "\<exists>csr signer csrDER.
           GenerateCSR deps crt = Inr csr
         \<and> DecodePrivateKeyBytes deps pk = Inr signer
         \<and> EncodeCSR deps csr signer = Inr csrDER
         \<and> csrPEM = ''-----BEGIN CERTIFICATE REQUEST-----\<newline>''
                     @ lineBreaker (base64_encode csrDER)
                     @ ''-----END CERTIFICATE REQUEST-----\<newline>''
         \<and> pem_Decode csrPEM = Some \<lparr>Type = ''CERTIFICATE REQUEST'', Bytes = csrDER\<rparr>"
proof -
  from assms obtain csr signer csrDER where
    steps: "GenerateCSR deps crt = Inr csr" "DecodePrivateKeyBytes deps pk = Inr signer"
      "EncodeCSR deps csr signer = Inr csrDER"
    and out: "csrPEM = pem_EncodeToMemory \<lparr>Type = ''CERTIFICATE REQUEST'', Bytes = csrDER\<rparr>"
    unfolding generateCSR_result by (auto split: sum.splits)
  have envelope: "csrPEM = ''-----BEGIN CERTIFICATE REQUEST-----\<newline>''
                     @ lineBreaker (base64_encode csrDER)
                     @ ''-----END CERTIFICATE REQUEST-----\<newline>''"
    unfolding out pem_EncodeToMemory_def pemStart_def pemEnd_def pemEndOfLine_def by simp
  have parsed: "pem_Decode csrPEM = Some \<lparr>Type = ''CERTIFICATE REQUEST'', Bytes = csrDER\<rparr>"
    unfolding out by (rule pem_label_roundtrip)
  from steps envelope parsed show ?thesis by blast
qed



text \<open>The instance: the envelope of the request signed in the example.\<close>

theorem generateCSR_pem_envelope_witness:
  "generateCSR (example_collaborators []) example_certificate ''pkcs1:key-1'' example_world =
     (Inr ''-----BEGIN CERTIFICATE REQUEST-----\<newline>ZXhhbXBsZS5jb20va2V5LTE=\<newline>-----END CERTIFICATE REQUEST-----\<newline>'',
      example_world\<lparr>trace := [StepGenerateCSR, StepDecodeKey, StepEncodeCSR, StepPemEncode]\<rparr>)
   \<and> pem_Decode ''-----BEGIN CERTIFICATE REQUEST-----\<newline>ZXhhbXBsZS5jb20va2V5LTE=\<newline>-----END CERTIFICATE REQUEST-----\<newline>''
       = Some \<lparr>Type = ''CERTIFICATE REQUEST'', Bytes = ''example.com/key-1''\<rparr>"
proof -
  have run: "generateCSR (example_collaborators []) example_certificate ''pkcs1:key-1'' example_world =
     (Inr ''-----BEGIN CERTIFICATE REQUEST-----\<newline>ZXhhbXBsZS5jb20va2V5LTE=\<newline>-----END CERTIFICATE REQUEST-----\<newline>'',
      example_world\<lparr>trace := [StepGenerateCSR, StepDecodeKey, StepEncodeCSR, StepPemEncode]\<rparr>)"
    using example_generateCSR [of "[]"] unfolding example_envelope .
  from generateCSR_pem_envelope [OF run] obtain csr signer csrDER where
    a: "GenerateCSR (example_collaborators []) example_certificate = Inr csr"
       "DecodePrivateKeyBytes (example_collaborators []) ''pkcs1:key-1'' = Inr signer"
       "EncodeCSR (example_collaborators []) csr signer = Inr csrDER"
    and d: "pem_Decode ''-----BEGIN CERTIFICATE REQUEST-----\<newline>ZXhhbXBsZS5jb20va2V5LTE=\<newline>-----END CERTIFICATE REQUEST-----\<newline>''
       = Some \<lparr>Type = ''CERTIFICATE REQUEST'', Bytes = csrDER\<rparr>"
    by blast
  from a have "csrDER = ''example.com/key-1''"
    by (auto simp: example_collaborators_def example_certificate_def)
  with run d show ?thesis by simp
qed

text \<open>
  Claim C2. When the generation of the request text succeeds, \<^verbatim>\<open>buildCertificateRequest\<close>
  returns a record whose generate-name seed is the certificate's name followed by
  \<^verbatim>\<open>-\<close>, whose annotations are the certificate's annotations with the two injected
  keys bound to the secret name and to the certificate's name, whose labels are the
  certificate's labels (the same map), and whose spec holds the request text and the
  certificate's duration, issuer reference, CA flag and usages.
\<close>

theorem buildCertificateRequest_fields:
  assumes "fst (generateCSR deps crt pk w) = Inr csrPEM"
  shows "\<exists>cr w'. buildCertificateRequest deps crt name pk w = (Inr cr, w')
     \<and> GenerateName cr = Name crt @ ''-''
     \<and> deref (heap w') (Annotations cr) =
         (deref (heap w) (Annotations crt))
           (CRPrivateKeyAnnotationKey deps \<mapsto> SecretName (Spec crt),
            CertificateNameKey deps \<mapsto> Name crt)
     \<and> Labels cr = Labels crt
     \<and> CSRPEM (RequestSpec cr) = csrPEM
     \<and> RequestDuration (RequestSpec cr) = Duration (Spec crt)
     \<and> RequestIssuerRef (RequestSpec cr) = IssuerRef (Spec crt)
     \<and> RequestIsCA (RequestSpec cr) = IsCA (Spec crt)
     \<and> RequestUsages (RequestSpec cr) = Usages (Spec crt)"
  unfolding buildCertificateRequest_success [OF assms]
  by (simp add: assembled_def deref_new injected_def)

text \<open>The instance: the record built for the example certificate.\<close>

theorem buildCertificateRequest_fields_witness:
  "fst (generateCSR (example_collaborators []) example_certificate ''pkcs1:key-1'' example_world)
     = Inr (pem_EncodeToMemory \<lparr>Type = ''CERTIFICATE REQUEST'', Bytes = ''example.com/key-1''\<rparr>)
   \<and> (\<exists>cr w'. buildCertificateRequest (example_collaborators []) example_certificate ''web-asrh''
                 ''pkcs1:key-1'' example_world = (Inr cr, w')
     \<and> GenerateName cr = ''web-''
     \<and> deref (heap w') (Annotations cr) =
         [''team'' \<mapsto> ''platform'',
          ''cert-manager.io/private-key-secret-name'' \<mapsto> ''web-tls'',
          ''cert-manager.io/certificate-name'' \<mapsto> ''web'']
     \<and> Labels cr = Some 1
     \<and> CSRPEM (RequestSpec cr)
         = pem_EncodeToMemory \<lparr>Type = ''CERTIFICATE REQUEST'', Bytes = ''example.com/key-1''\<rparr>
     \<and> RequestDuration (RequestSpec cr) = Some 7776000000000000
     \<and> RequestIssuerRef (RequestSpec cr)
         = \<lparr>RefName = ''ca-issuer'', RefKind = ''Issuer'', RefGroup = ''cert-manager.io''\<rparr>
     \<and> RequestIsCA (RequestSpec cr) = False
     \<and> RequestUsages (RequestSpec cr) = [''server auth''])"
proof -
  have g: "fst (generateCSR (example_collaborators []) example_certificate ''pkcs1:key-1'' example_world)
     = Inr (pem_EncodeToMemory \<lparr>Type = ''CERTIFICATE REQUEST'', Bytes = ''example.com/key-1''\<rparr>)"
    by (simp add: example_generateCSR)
  have d: "deref (heap example_world) (Annotations example_certificate) = [''team'' \<mapsto> ''platform'']"
    by (simp add: deref_def example_world_def example_certificate_def)
  from buildCertificateRequest_fields [OF g, of "''web-asrh''"] g show ?thesis
    unfolding d by (simp add: example_collaborators_def example_certificate_def)
qed

text \<open>
  Claim C10. \<^verbatim>\<open>buildCertificateRequest\<close> does not change its input certificate. The
  function has no assignment through \<^verbatim>\<open>crt\<close>, which the embedding therefore takes as a
  value; what the certificate refers to is in the heap. Every map that existed before
  the call has the same content after it, so the certificate's annotations and labels
  read as before; the two injected keys go to a map at a fresh address, which is the
  annotations map of the returned record and differs from the certificate's; the
  labels of the record are the certificate's own map.
\<close>

theorem buildCertificateRequest_frame:
  assumes "valid_ref (heap w) (Annotations crt)" and "valid_ref (heap w) (Labels crt)"
  shows "take (length (heap w)) (heap (snd (buildCertificateRequest deps crt name pk w))) = heap w
     \<and> deref (heap (snd (buildCertificateRequest deps crt name pk w))) (Annotations crt)
         = deref (heap w) (Annotations crt)
     \<and> deref (heap (snd (buildCertificateRequest deps crt name pk w))) (Labels crt)
         = deref (heap w) (Labels crt)
     \<and> (\<forall>cr. fst (buildCertificateRequest deps crt name pk w) = Inr cr \<longrightarrow>
           Annotations cr = Some (length (heap w)) \<and> Annotations cr \<noteq> Annotations crt
           \<and> Labels cr = Labels crt)"
proof -
  have fresh: "Annotations crt \<noteq> Some (length (heap w))"
    using assms(1) unfolding valid_ref_def by (auto split: option.splits)
  have new: "\<forall>cr. fst (buildCertificateRequest deps crt name pk w) = Inr cr \<longrightarrow>
           Annotations cr = Some (length (heap w)) \<and> Annotations cr \<noteq> Annotations crt
           \<and> Labels cr = Labels crt"
    using fresh by (auto dest!: buildCertificateRequest_Inr simp: assembled_def)
  from buildCertificateRequest_heap [of deps crt name pk w] show ?thesis
  proof
    assume "heap (snd (buildCertificateRequest deps crt name pk w)) = heap w"
    with new fresh show ?thesis by auto
  next
    assume "heap (snd (buildCertificateRequest deps crt name pk w))
        = heap w @ [injected deps crt (heap w)]"
    with new fresh assms show ?thesis by (auto simp: deref_old)
  qed
qed

text \<open>The instance: the example certificate, whose maps are at the addresses 0 and 1.\<close>

theorem buildCertificateRequest_frame_witness:
  "valid_ref (heap example_world) (Annotations example_certificate)
   \<and> valid_ref (heap example_world) (Labels example_certificate)
   \<and> take (length (heap example_world))
        (heap (snd (buildCertificateRequest (example_collaborators []) example_certificate
                      ''web-asrh'' ''pkcs1:key-1'' example_world))) = heap example_world
   \<and> deref (heap (snd (buildCertificateRequest (example_collaborators []) example_certificate
                      ''web-asrh'' ''pkcs1:key-1'' example_world))) (Annotations example_certificate)
       = [''team'' \<mapsto> ''platform'']
   \<and> deref (heap (snd (buildCertificateRequest (example_collaborators []) example_certificate
                      ''web-asrh'' ''pkcs1:key-1'' example_world))) (Labels example_certificate)
       = [''app'' \<mapsto> ''shop'']"
proof -
  have v: "valid_ref (heap example_world) (Annotations example_certificate)"
      "valid_ref (heap example_world) (Labels example_certificate)"
    by (simp_all add: valid_ref_def example_world_def example_certificate_def)
  have d: "deref (heap example_world) (Annotations example_certificate) = [''team'' \<mapsto> ''platform'']"
      "deref (heap example_world) (Labels example_certificate) = [''app'' \<mapsto> ''shop'']"
    by (simp_all add: deref_def example_world_def example_certificate_def)
  from buildCertificateRequest_frame [OF v, of "example_collaborators []" "''web-asrh''" "''pkcs1:key-1''"]
    v d show ?thesis by simp
qed

text \<open>
  Claim C9. \<^verbatim>\<open>Run\<close> takes exactly one input object. With no object it returns the
  error \<^verbatim>\<open>no object passed to create certificaterequest\<close>, with more than one the error
  \<^verbatim>\<open>multiple objects passed to create certificaterequest\<close>; in both cases the state it
  leaves differs from the initial one by the three steps that load the input only: no
  key was generated, no map allocated, nothing sent to the client. With one object it
  goes on to the body of the loop for that object.
\<close>

theorem Run_one_object:
  assumes "ToRawKubeConfigLoader_Namespace deps = Inr (cmdNamespace, enforceNamespace)"
    and "Err (Builder_Do deps cmdNamespace enforceNamespace) = None"
    and "Infos (Builder_Do deps cmdNamespace enforceNamespace) = Inr infos"
  shows "(infos = [] \<longrightarrow>
            Run deps w = (Inl ''no object passed to create certificaterequest'',
                          w\<lparr>trace := trace w @ [StepNamespace, StepBuilderDo, StepInfos]\<rparr>))
     \<and> (1 < length infos \<longrightarrow>
            Run deps w = (Inl ''multiple objects passed to create certificaterequest'',
                          w\<lparr>trace := trace w @ [StepNamespace, StepBuilderDo, StepInfos]\<rparr>))
     \<and> (\<forall>info. infos = [info] \<longrightarrow>
            Run deps w = Run_body deps cmdNamespace info
                          (w\<lparr>trace := trace w @ [StepNamespace, StepBuilderDo, StepInfos]\<rparr>))"
  unfolding Run_result using assms by (auto split: list.splits)

text \<open>The instance: no input object, and two of them.\<close>

theorem Run_one_object_witness:
  "Run (example_collaborators []) example_world =
     (Inl ''no object passed to create certificaterequest'',
      example_world\<lparr>trace := [StepNamespace, StepBuilderDo, StepInfos]\<rparr>)
   \<and> Run (example_collaborators [\<lparr>Object = CertificateObject example_certificate\<rparr>,
                                  \<lparr>Object = OtherObject ''Secret''\<rparr>]) example_world =
     (Inl ''multiple objects passed to create certificaterequest'',
      example_world\<lparr>trace := [StepNamespace, StepBuilderDo, StepInfos]\<rparr>)"
proof -
  have a: "ToRawKubeConfigLoader_Namespace (example_collaborators infos) = Inr (''default'', False)"
      "Err (Builder_Do (example_collaborators infos) ''default'' False) = None"
      "Infos (Builder_Do (example_collaborators infos) ''default'' False) = Inr infos" for infos
    by (simp_all add: example_collaborators_def)
  have t: "trace example_world = []"
    by (simp add: example_world_def)
  from Run_one_object [OF a, of "[]" example_world]
    Run_one_object [OF a, of "[\<lparr>Object = CertificateObject example_certificate\<rparr>,
                               \<lparr>Object = OtherObject ''Secret''\<rparr>]" example_world]
  show ?thesis by (simp add: t)
qed

text \<open>
  Claim C8. The namer is deterministic in the issuance-relevant fields: two certificates
  that agree on them and on the name get the same result, identifier or error, whatever
  their other fields, labels and annotations are.
\<close>

theorem computeName_deterministic:
  assumes "relevant nm (Spec crt) = relevant nm (Spec crt')" and "Name crt = Name crt'"
  shows "computeName nm crt = computeName nm crt'"
  unfolding computeName_def assms ..

text \<open>
  The instance: the example certificate and a copy in another namespace, without labels
  and with another secret name.
\<close>

theorem computeName_deterministic_witness:
  "relevant example_namer (Spec example_certificate)
     = relevant example_namer
         (Spec (example_certificate\<lparr>Namespace := ''prod'', Labels := None,
                  Spec := (Spec example_certificate)\<lparr>SecretName := ''other-tls''\<rparr>\<rparr>))
   \<and> Name example_certificate
       = Name (example_certificate\<lparr>Namespace := ''prod'', Labels := None,
                  Spec := (Spec example_certificate)\<lparr>SecretName := ''other-tls''\<rparr>\<rparr>)
   \<and> computeName example_namer example_certificate = Inr ''web-asrh''
   \<and> computeName example_namer
        (example_certificate\<lparr>Namespace := ''prod'', Labels := None,
           Spec := (Spec example_certificate)\<lparr>SecretName := ''other-tls''\<rparr>\<rparr>) = Inr ''web-asrh''"
proof -
  have r: "relevant example_namer (Spec example_certificate)
     = relevant example_namer
         (Spec (example_certificate\<lparr>Namespace := ''prod'', Labels := None,
                  Spec := (Spec example_certificate)\<lparr>SecretName := ''other-tls''\<rparr>\<rparr>))"
    by (simp add: example_namer_def)
  have n: "Name example_certificate
       = Name (example_certificate\<lparr>Namespace := ''prod'', Labels := None,
                  Spec := (Spec example_certificate)\<lparr>SecretName := ''other-tls''\<rparr>\<rparr>)"
    by simp
  have v: "computeName example_namer example_certificate = Inr ''web-asrh''"
    by (simp add: computeName_def example_namer_def example_certificate_def)
  from computeName_deterministic [OF r n] r n v show ?thesis by simp
qed

text \<open>
  Claim C3. When the input is one certificate and a step of the pipeline fails, \<^verbatim>\<open>Run\<close>
  returns at once with the error of that step: the namer's error inside the message
  \<^verbatim>\<open>internal error hashing certificate spec\<close>, the fixed messages
  \<^verbatim>\<open>error when generating private key\<close> and \<^verbatim>\<open>error when encoding private key\<close>, and
  the error itself of the request builder, the key decoder or the signer. The state
  it leaves is the initial one with the steps up to the failing one recorded: no later
  step was performed, no map was allocated for a record and nothing was sent to the
  client. In particular a key generator that rejects the certificate's algorithm ends
  the invocation before any key is encoded or any request built.
\<close>

theorem Run_first_error:
  assumes "loads deps cmdNamespace enforceNamespace info crt"
  shows
    "(ComputeCertificateRequestName deps crt = Inl e \<longrightarrow>
        Run deps w =
          (Inl (''internal error hashing certificate spec: '' @ e),
           w\<lparr>trace := trace w @ [StepNamespace, StepBuilderDo, StepInfos, StepConvertToVersion,
                                 StepPrintf, StepComputeName]\<rparr>))
   \<and> (ComputeCertificateRequestName deps crt = Inr n
        \<and> GeneratePrivateKeyForCertificate deps crt = Inl e \<longrightarrow>
        Run deps w =
          (Inl ''error when generating private key'',
           w\<lparr>trace := trace w @ [StepNamespace, StepBuilderDo, StepInfos, StepConvertToVersion,
                                 StepPrintf, StepComputeName, StepGenerateKey]\<rparr>))
   \<and> (ComputeCertificateRequestName deps crt = Inr n
        \<and> GeneratePrivateKeyForCertificate deps crt = Inr k
        \<and> EncodePrivateKey deps k (KeyEncoding (Spec crt)) = Inl e \<longrightarrow>
        Run deps w =
          (Inl ''error when encoding private key'',
           w\<lparr>trace := trace w @ [StepNamespace, StepBuilderDo, StepInfos, StepConvertToVersion,
                                 StepPrintf, StepComputeName, StepGenerateKey, StepEncodeKey]\<rparr>))
   \<and> (ComputeCertificateRequestName deps crt = Inr n
        \<and> GeneratePrivateKeyForCertificate deps crt = Inr k
        \<and> EncodePrivateKey deps k (KeyEncoding (Spec crt)) = Inr keyData
        \<and> GenerateCSR deps crt = Inl e \<longrightarrow>
        Run deps w =
          (Inl e,
           w\<lparr>trace := trace w @ [StepNamespace, StepBuilderDo, StepInfos, StepConvertToVersion,
                                 StepPrintf, StepComputeName, StepGenerateKey, StepEncodeKey,
                                 StepGenerateCSR]\<rparr>))
   \<and> (ComputeCertificateRequestName deps crt = Inr n
        \<and> GeneratePrivateKeyForCertificate deps crt = Inr k
        \<and> EncodePrivateKey deps k (KeyEncoding (Spec crt)) = Inr keyData
        \<and> GenerateCSR deps crt = Inr csr
        \<and> DecodePrivateKeyBytes deps keyData = Inl e \<longrightarrow>
        Run deps w =
          (Inl e,
           w\<lparr>trace := trace w @ [StepNamespace, StepBuilderDo, StepInfos, StepConvertToVersion,
                                 StepPrintf, StepComputeName, StepGenerateKey, StepEncodeKey,
                                 StepGenerateCSR, StepDecodeKey]\<rparr>))
   \<and> (ComputeCertificateRequestName deps crt = Inr n
        \<and> GeneratePrivateKeyForCertificate deps crt = Inr k
        \<and> EncodePrivateKey deps k (KeyEncoding (Spec crt)) = Inr keyData
        \<and> GenerateCSR deps crt = Inr csr
        \<and> DecodePrivateKeyBytes deps keyData = Inr signer
        \<and> EncodeCSR deps csr signer = Inl e \<longrightarrow>
        Run deps w =
          (Inl e,
           w\<lparr>trace := trace w @ [StepNamespace, StepBuilderDo, StepInfos, StepConvertToVersion,
                                 StepPrintf, StepComputeName, StepGenerateKey, StepEncodeKey,
                                 StepGenerateCSR, StepDecodeKey, StepEncodeCSR]\<rparr>))"
  unfolding Run_loaded [OF assms] Run_body_certificate [OF loads_convert [OF assms]] build_results
  by simp

text \<open>The instance: the key generator rejects the algorithm of the certificate.\<close>

theorem Run_first_error_witness:
  "loads (example_collaborators [\<lparr>Object = CertificateObject example_unsupported\<rparr>])
     ''default'' False \<lparr>Object = CertificateObject example_unsupported\<rparr> example_unsupported
   \<and> ComputeCertificateRequestName
        (example_collaborators [\<lparr>Object = CertificateObject example_unsupported\<rparr>])
        example_unsupported = Inr ''web-asdh''
   \<and> GeneratePrivateKeyForCertificate
        (example_collaborators [\<lparr>Object = CertificateObject example_unsupported\<rparr>])
        example_unsupported = Inl ''unsupported algorithm''
   \<and> Run (example_collaborators [\<lparr>Object = CertificateObject example_unsupported\<rparr>])
        example_world =
        (Inl ''error when generating private key'',
         example_world\<lparr>trace := [StepNamespace, StepBuilderDo, StepInfos, StepConvertToVersion,
                                  StepPrintf, StepComputeName, StepGenerateKey]\<rparr>)"
proof -
  let ?deps = "example_collaborators [\<lparr>Object = CertificateObject example_unsupported\<rparr>]"
  have l: "loads ?deps ''default'' False \<lparr>Object = CertificateObject example_unsupported\<rparr>
      example_unsupported"
    by (rule example_loads)
  have n: "ComputeCertificateRequestName ?deps example_unsupported = Inr ''web-asdh''"
    by (simp add: example_collaborators_def example_unsupported_def example_certificate_def
          computeName_def example_namer_def)
  have g: "GeneratePrivateKeyForCertificate ?deps example_unsupported = Inl ''unsupported algorithm''"
    by (simp add: example_collaborators_def example_unsupported_def example_certificate_def)
  have t: "trace example_world = []"
    by (simp add: example_world_def)
  from Run_first_error [OF l, where n = "''web-asdh''" and e = "''unsupported algorithm''"
      and w = example_world]
  have "Run ?deps example_world =
        (Inl ''error when generating private key'',
         example_world\<lparr>trace := trace example_world @
             [StepNamespace, StepBuilderDo, StepInfos, StepConvertToVersion,
              StepPrintf, StepComputeName, StepGenerateKey]\<rparr>)"
    using n g by blast
  with l n g show ?thesis by (simp add: t)
qed

text \<open>
  Claim C1, as the code has it. The computed identifier is handed to
  \<^verbatim>\<open>buildCertificateRequest\<close>, whose body does not use it. For every certificate that
  passes all steps, the record sent to the client is assembled from the signed request
  and the fields of the certificate alone: its name is empty, its generate-name seed is
  the certificate's name followed by \<^verbatim>\<open>-\<close>, and the invocation ends in the same state,
  with the same record, whatever identifier the namer computes.
\<close>

theorem Run_record_without_name:
  assumes "loads deps cmdNamespace enforceNamespace info crt"
    and "Run deps w = (Inr (), w')"
  shows "\<exists>n cr. ComputeCertificateRequestName deps crt = Inr n
     \<and> submitted w' = submitted w @ [(target_namespace cmdNamespace crt, cr)]
     \<and> Name cr = []
     \<and> GenerateName cr = Name crt @ ''-''
     \<and> (\<forall>namer n'. namer crt = Inr n' \<longrightarrow>
           Run (deps\<lparr>ComputeCertificateRequestName := namer\<rparr>) w = (Inr (), w'))"
proof -
  from assms(2) have ok: "fst (Run deps w) = Inr ()"
    by simp
  from Run_Inr_steps [OF assms(1) ok] obtain n k keyData csr signer csrDER created where
    s: "ComputeCertificateRequestName deps crt = Inr n"
       "GeneratePrivateKeyForCertificate deps crt = Inr k"
       "EncodePrivateKey deps k (KeyEncoding (Spec crt)) = Inr keyData"
       "GenerateCSR deps crt = Inr csr"
       "DecodePrivateKeyBytes deps keyData = Inr signer"
       "EncodeCSR deps csr signer = Inr csrDER"
       "CertificateRequests_Create deps (target_namespace cmdNamespace crt)
         (assembled crt (pem_EncodeToMemory \<lparr>Type = ''CERTIFICATE REQUEST'', Bytes = csrDER\<rparr>)
            (length (heap w))) = Inr created"
    by blast
  let ?cr = "assembled crt
      (pem_EncodeToMemory \<lparr>Type = ''CERTIFICATE REQUEST'', Bytes = csrDER\<rparr>) (length (heap w))"
  from Run_success [OF assms(1) s] assms(2)
  have sent: "submitted w' = submitted w @ [(target_namespace cmdNamespace crt, ?cr)]"
    by auto
  have fields: "Name ?cr = []" "GenerateName ?cr = Name crt @ ''-''"
    by (simp_all add: assembled_def)
  have same: "\<forall>namer n'. namer crt = Inr n' \<longrightarrow>
           Run (deps\<lparr>ComputeCertificateRequestName := namer\<rparr>) w = (Inr (), w')"
    using Run_other_namer [OF assms(1) s(1)] assms(2) by simp
  from s(1) sent fields same show ?thesis by blast
qed

text \<open>The instance: the example invocation.\<close>

theorem Run_record_without_name_witness:
  "loads (example_collaborators example_input) ''default'' False
     \<lparr>Object = CertificateObject example_certificate\<rparr> example_certificate
   \<and> fst (Run (example_collaborators example_input) example_world) = Inr ()
   \<and> ComputeCertificateRequestName (example_collaborators example_input) example_certificate
       = Inr ''web-asrh''
   \<and> map (Name \<circ> snd) (submitted (snd (Run (example_collaborators example_input) example_world)))
       = [[]]
   \<and> map (GenerateName \<circ> snd)
        (submitted (snd (Run (example_collaborators example_input) example_world))) = [''web-'']"
proof -
  let ?deps = "example_collaborators example_input"
  have l: "loads ?deps ''default'' False
      \<lparr>Object = CertificateObject example_certificate\<rparr> example_certificate"
    unfolding example_input_def by (rule example_loads)
  have ok: "fst (Run ?deps example_world) = Inr ()"
    by (simp add: example_Run)
  then have r: "Run ?deps example_world = (Inr (), snd (Run ?deps example_world))"
    by (simp add: prod_eq_iff)
  have n: "ComputeCertificateRequestName ?deps example_certificate = Inr ''web-asrh''"
    by (simp add: example_collaborators_def example_certificate_def computeName_def
          example_namer_def)
  have e: "submitted example_world = []" "Name example_certificate = ''web''"
    by (simp_all add: example_world_def example_certificate_def)
  from Run_record_without_name [OF l r] obtain cr where
    "submitted (snd (Run ?deps example_world))
       = submitted example_world @ [(target_namespace ''default'' example_certificate, cr)]"
    "Name cr = []" "GenerateName cr = Name example_certificate @ ''-''"
    by blast
  with l ok n show ?thesis
    by (simp add: e)
qed

text \<open>
  Claim C1 as stated, that the record incorporates the computed identifier, fails: with
  two namers that compute the different identifiers \<^verbatim>\<open>web-asrh\<close> and \<^verbatim>\<open>request-asrh\<close> for
  the example certificate, the two invocations succeed with the same result and the
  same final state, and the name of the record sent to the client is empty.
\<close>

theorem Run_record_incorporates_name_counterexample:
  "ComputeCertificateRequestName (example_collaborators example_input) example_certificate
     = Inr ''web-asrh''
   \<and> ComputeCertificateRequestName example_renamed example_certificate = Inr ''request-asrh''
   \<and> fst (Run (example_collaborators example_input) example_world) = Inr ()
   \<and> Run example_renamed example_world = Run (example_collaborators example_input) example_world
   \<and> map (Name \<circ> snd) (submitted (snd (Run (example_collaborators example_input) example_world)))
       = [[]]"
proof -
  let ?deps = "example_collaborators example_input"
  have l: "loads ?deps ''default'' False
      \<lparr>Object = CertificateObject example_certificate\<rparr> example_certificate"
    unfolding example_input_def by (rule example_loads)
  have n: "ComputeCertificateRequestName ?deps example_certificate = Inr ''web-asrh''"
    by (simp add: example_collaborators_def example_certificate_def computeName_def
          example_namer_def)
  have n': "computeName (example_namer\<lparr>namePrefix := (\<lambda>n. ''request-'')\<rparr>) example_certificate
      = Inr ''request-asrh''"
    by (simp add: example_certificate_def computeName_def example_namer_def)
  have same: "Run example_renamed example_world = Run ?deps example_world"
    unfolding example_renamed_def
    by (rule Run_other_namer
          [where namer = "computeName (example_namer\<lparr>namePrefix := (\<lambda>n. ''request-'')\<rparr>)",
           OF l n n'])
  have n'': "ComputeCertificateRequestName example_renamed example_certificate = Inr ''request-asrh''"
    unfolding example_renamed_def using n' by simp
  from n n'' same show ?thesis
    by (simp add: example_Run assembled_def)
qed

text \<open>
  Claim C7. Every invocation performs an initial segment of one fixed sequence of steps,
  each step at most once, and the whole sequence when it returns without error. In that
  sequence the name is computed before the key is generated, the key is generated
  before it is encoded, then the request is built, the key decoded, the request signed
  and wrapped, the record assembled and sent. On one certificate the invocation stops
  at the first step that fails: when the steps before a step have succeeded and that
  step returns an error, \<^verbatim>\<open>Run\<close> returns an error and has performed the sequence up to
  and including that step and nothing after it; when every step succeeds, it returns
  without error and has performed the whole sequence.
\<close>

theorem Run_fixed_order_fail_stop:
  "(\<exists>steps. trace (snd (Run deps w)) = trace w @ steps
       \<and> prefix steps Run_order \<and> distinct steps
       \<and> (fst (Run deps w) = Inr () \<longrightarrow> steps = Run_order))
   \<and> (loads deps cmdNamespace enforceNamespace info crt \<longrightarrow>
        (ComputeCertificateRequestName deps crt = Inl e \<longrightarrow>
           isl (fst (Run deps w))
           \<and> trace (snd (Run deps w)) = trace w @ steps_through StepComputeName)
      \<and> (ComputeCertificateRequestName deps crt = Inr n
           \<and> GeneratePrivateKeyForCertificate deps crt = Inl e \<longrightarrow>
           isl (fst (Run deps w))
           \<and> trace (snd (Run deps w)) = trace w @ steps_through StepGenerateKey)
      \<and> (ComputeCertificateRequestName deps crt = Inr n
           \<and> GeneratePrivateKeyForCertificate deps crt = Inr k
           \<and> EncodePrivateKey deps k (KeyEncoding (Spec crt)) = Inl e \<longrightarrow>
           isl (fst (Run deps w))
           \<and> trace (snd (Run deps w)) = trace w @ steps_through StepEncodeKey)
      \<and> (ComputeCertificateRequestName deps crt = Inr n
           \<and> GeneratePrivateKeyForCertificate deps crt = Inr k
           \<and> EncodePrivateKey deps k (KeyEncoding (Spec crt)) = Inr keyData
           \<and> GenerateCSR deps crt = Inl e \<longrightarrow>
           isl (fst (Run deps w))
           \<and> trace (snd (Run deps w)) = trace w @ steps_through StepGenerateCSR)
      \<and> (ComputeCertificateRequestName deps crt = Inr n
           \<and> GeneratePrivateKeyForCertificate deps crt = Inr k
           \<and> EncodePrivateKey deps k (KeyEncoding (Spec crt)) = Inr keyData
           \<and> GenerateCSR deps crt = Inr csr
           \<and> DecodePrivateKeyBytes deps keyData = Inl e \<longrightarrow>
           isl (fst (Run deps w))
           \<and> trace (snd (Run deps w)) = trace w @ steps_through StepDecodeKey)
      \<and> (ComputeCertificateRequestName deps crt = Inr n
           \<and> GeneratePrivateKeyForCertificate deps crt = Inr k
           \<and> EncodePrivateKey deps k (KeyEncoding (Spec crt)) = Inr keyData
           \<and> GenerateCSR deps crt = Inr csr
           \<and> DecodePrivateKeyBytes deps keyData = Inr signer
           \<and> EncodeCSR deps csr signer = Inl e \<longrightarrow>
           isl (fst (Run deps w))
           \<and> trace (snd (Run deps w)) = trace w @ steps_through StepEncodeCSR)
      \<and> (ComputeCertificateRequestName deps crt = Inr n
           \<and> GeneratePrivateKeyForCertificate deps crt = Inr k
           \<and> EncodePrivateKey deps k (KeyEncoding (Spec crt)) = Inr keyData
           \<and> GenerateCSR deps crt = Inr csr
           \<and> DecodePrivateKeyBytes deps keyData = Inr signer
           \<and> EncodeCSR deps csr signer = Inr csrDER
           \<and> CertificateRequests_Create deps (target_namespace cmdNamespace crt)
                (assembled crt
                   (pem_EncodeToMemory \<lparr>Type = ''CERTIFICATE REQUEST'', Bytes = csrDER\<rparr>)
                   (length (heap w))) = Inl e \<longrightarrow>
           isl (fst (Run deps w))
           \<and> trace (snd (Run deps w)) = trace w @ steps_through StepCreate)
      \<and> (ComputeCertificateRequestName deps crt = Inr n
           \<and> GeneratePrivateKeyForCertificate deps crt = Inr k
           \<and> EncodePrivateKey deps k (KeyEncoding (Spec crt)) = Inr keyData
           \<and> GenerateCSR deps crt = Inr csr
           \<and> DecodePrivateKeyBytes deps keyData = Inr signer
           \<and> EncodeCSR deps csr signer = Inr csrDER
           \<and> CertificateRequests_Create deps (target_namespace cmdNamespace crt)
                (assembled crt
                   (pem_EncodeToMemory \<lparr>Type = ''CERTIFICATE REQUEST'', Bytes = csrDER\<rparr>)
                   (length (heap w))) = Inr created \<longrightarrow>
           fst (Run deps w) = Inr ()
           \<and> trace (snd (Run deps w)) = trace w @ Run_order))"
proof -
  have order: "\<exists>steps. trace (snd (Run deps w)) = trace w @ steps
       \<and> prefix steps Run_order \<and> distinct steps
       \<and> (fst (Run deps w) = Inr () \<longrightarrow> steps = Run_order)"
  proof -
    have d: "distinct Run_order"
      by (simp add: Run_order_def)
    have "\<exists>steps. trace (snd (Run deps w)) = trace w @ steps
       \<and> prefix steps Run_order
       \<and> (fst (Run deps w) = Inr () \<longrightarrow> steps = Run_order)"
    proof (cases "\<exists>cmdNamespace enforceNamespace info.
        ToRawKubeConfigLoader_Namespace deps = Inr (cmdNamespace, enforceNamespace)
        \<and> Err (Builder_Do deps cmdNamespace enforceNamespace) = None
        \<and> Infos (Builder_Do deps cmdNamespace enforceNamespace) = Inr [info]")
      case True
      then obtain cmdNamespace enforceNamespace info where
        a: "ToRawKubeConfigLoader_Namespace deps = Inr (cmdNamespace, enforceNamespace)"
           "Err (Builder_Do deps cmdNamespace enforceNamespace) = None"
           "Infos (Builder_Do deps cmdNamespace enforceNamespace) = Inr [info]"
        by blast
      have r: "Run deps w = Run_body deps cmdNamespace info
                  (w\<lparr>trace := trace w @ [StepNamespace, StepBuilderDo, StepInfos]\<rparr>)"
        unfolding Run_result using a by simp
      from Run_body_steps [of deps cmdNamespace info
          "w\<lparr>trace := trace w @ [StepNamespace, StepBuilderDo, StepInfos]\<rparr>"]
      obtain steps where
        s: "trace (snd (Run deps w)) = (trace w @ [StepNamespace, StepBuilderDo, StepInfos]) @ steps"
           "prefix steps (drop 3 Run_order)"
           "fst (Run deps w) = Inr () \<longrightarrow> steps = drop 3 Run_order"
        unfolding r by auto
      have o: "Run_order = [StepNamespace, StepBuilderDo, StepInfos] @ drop 3 Run_order"
        by (simp add: Run_order_def)
      have "prefix ([StepNamespace, StepBuilderDo, StepInfos] @ steps) Run_order"
        by (subst o) (simp only: same_prefix_prefix s(2))
      moreover have "fst (Run deps w) = Inr () \<longrightarrow>
          [StepNamespace, StepBuilderDo, StepInfos] @ steps = Run_order"
        using s(3) o by auto
      ultimately show ?thesis
        using s(1) by (intro exI [of _ "[StepNamespace, StepBuilderDo, StepInfos] @ steps"]) simp
    next
      case False
      then show ?thesis
        unfolding Run_result
        by (auto simp: Run_order_def split: sum.splits option.splits list.splits)
    qed
    then obtain steps where
      s: "trace (snd (Run deps w)) = trace w @ steps" "prefix steps Run_order"
         "fst (Run deps w) = Inr () \<longrightarrow> steps = Run_order"
      by blast
    from s(2) d have "distinct steps"
      by (metis distinct_append prefix_def)
    with s show ?thesis by blast
  qed
  have stop: "loads deps cmdNamespace enforceNamespace info crt \<Longrightarrow> ?thesis"
    using order
    by (simp only: Run_loaded Run_body_certificate [OF loads_convert] build_results)
       (simp add: steps_through_def Run_order_def)
  from order stop show ?thesis
    by (cases "loads deps cmdNamespace enforceNamespace info crt") simp_all
qed


text \<open>
  The instance: the example invocation performs every step and succeeds; the one whose
  key generator rejects the algorithm fails and stops at the key generation.
\<close>

theorem Run_fixed_order_fail_stop_witness:
  "loads (example_collaborators example_input) ''default'' False
     \<lparr>Object = CertificateObject example_certificate\<rparr> example_certificate
   \<and> fst (Run (example_collaborators example_input) example_world) = Inr ()
   \<and> trace (snd (Run (example_collaborators example_input) example_world)) =
       [StepNamespace, StepBuilderDo, StepInfos, StepConvertToVersion, StepPrintf,
        StepComputeName, StepGenerateKey, StepEncodeKey, StepGenerateCSR, StepDecodeKey,
        StepEncodeCSR, StepPemEncode, StepAssemble, StepCreate]
   \<and> loads (example_collaborators [\<lparr>Object = CertificateObject example_unsupported\<rparr>])
       ''default'' False \<lparr>Object = CertificateObject example_unsupported\<rparr> example_unsupported
   \<and> GeneratePrivateKeyForCertificate
        (example_collaborators [\<lparr>Object = CertificateObject example_unsupported\<rparr>])
        example_unsupported = Inl ''unsupported algorithm''
   \<and> isl (fst (Run (example_collaborators [\<lparr>Object = CertificateObject example_unsupported\<rparr>])
                 example_world))
   \<and> trace (snd (Run (example_collaborators [\<lparr>Object = CertificateObject example_unsupported\<rparr>])
                    example_world)) =
       [StepNamespace, StepBuilderDo, StepInfos, StepConvertToVersion, StepPrintf,
        StepComputeName, StepGenerateKey]"
proof -
  let ?deps = "example_collaborators example_input"
  let ?bad = "example_collaborators [\<lparr>Object = CertificateObject example_unsupported\<rparr>]"
  have t: "trace example_world = []"
    by (simp add: example_world_def)
  have l: "loads ?deps ''default'' False
      \<lparr>Object = CertificateObject example_certificate\<rparr> example_certificate"
    unfolding example_input_def by (rule example_loads)
  have s: "ComputeCertificateRequestName ?deps example_certificate = Inr ''web-asrh''"
    "GeneratePrivateKeyForCertificate ?deps example_certificate = Inr ''key-1''"
    "EncodePrivateKey ?deps ''key-1'' (KeyEncoding (Spec example_certificate)) = Inr ''pkcs1:key-1''"
    "GenerateCSR ?deps example_certificate = Inr ''example.com''"
    "DecodePrivateKeyBytes ?deps ''pkcs1:key-1'' = Inr ''key-1''"
    "EncodeCSR ?deps ''example.com'' ''key-1'' = Inr ''example.com/key-1''"
    by (simp_all add: example_collaborators_def example_certificate_def computeName_def
          example_namer_def)
  have c: "CertificateRequests_Create ?deps (target_namespace ''default'' example_certificate)
      (assembled example_certificate
         (pem_EncodeToMemory \<lparr>Type = ''CERTIFICATE REQUEST'', Bytes = ''example.com/key-1''\<rparr>)
         (length (heap example_world)))
    = Inr (assembled example_certificate
         (pem_EncodeToMemory \<lparr>Type = ''CERTIFICATE REQUEST'', Bytes = ''example.com/key-1''\<rparr>)
         (length (heap example_world)))"
    by (simp add: example_collaborators_def)
  from Run_fixed_order_fail_stop [where deps = "?deps" and w = example_world
        and cmdNamespace = "''default''" and enforceNamespace = False
        and info = "\<lparr>Object = CertificateObject example_certificate\<rparr>"
        and crt = example_certificate and n = "''web-asrh''" and k = "''key-1''" and keyData = "''pkcs1:key-1''"
        and csr = "''example.com''" and signer = "''key-1''" and csrDER = "''example.com/key-1''"]
  have good: "fst (Run ?deps example_world) = Inr ()
      \<and> trace (snd (Run ?deps example_world)) = trace example_world @ Run_order"
    using l s c by blast
  have l': "loads ?bad ''default'' False \<lparr>Object = CertificateObject example_unsupported\<rparr>
      example_unsupported"
    by (rule example_loads)
  have n': "ComputeCertificateRequestName ?bad example_unsupported = Inr ''web-asdh''"
    by (simp add: example_collaborators_def example_unsupported_def example_certificate_def
          computeName_def example_namer_def)
  have g': "GeneratePrivateKeyForCertificate ?bad example_unsupported = Inl ''unsupported algorithm''"
    by (simp add: example_collaborators_def example_unsupported_def example_certificate_def)
  from Run_fixed_order_fail_stop [where deps = "?bad" and w = example_world
        and cmdNamespace = "''default''" and enforceNamespace = False
        and info = "\<lparr>Object = CertificateObject example_unsupported\<rparr>"
        and crt = example_unsupported and n = "''web-asdh''" and e = "''unsupported algorithm''"]
  have bad: "isl (fst (Run ?bad example_world))
      \<and> trace (snd (Run ?bad example_world)) = trace example_world @ steps_through StepGenerateKey"
    using l' n' g' by blast
  from good bad l l' g' show ?thesis
    by (simp add: t Run_order_def steps_through_def)
qed

text \<open>
  Claim C5. For every private key and every supported encoding, decoding the encoded
  key gives the key back. In particular, with this codec for \<^verbatim>\<open>EncodePrivateKey\<close> and
  \<^verbatim>\<open>DecodePrivateKeyBytes\<close>, the key that \<^verbatim>\<open>generateCSR\<close> decodes from the bytes that
  \<^verbatim>\<open>Run\<close> passes on (the generated key, encoded with the certificate's key encoding) is
  the generated key, and the request is signed with it: the result of \<^verbatim>\<open>generateCSR\<close>
  is the envelope of \<^verbatim>\<open>EncodeCSR\<close> applied to the unsigned request and the generated
  key, or the error of the request builder or of the signer.
\<close>

theorem KeyCodec_decode_encode:
  "(KeyCodec_encode k e = Inr bs \<longrightarrow> KeyCodec_decode bs = Inr k)
   \<and> (EncodePrivateKey deps = KeyCodec_encode
        \<and> DecodePrivateKeyBytes deps = KeyCodec_decode
        \<and> GeneratePrivateKeyForCertificate deps crt = Inr k
        \<and> EncodePrivateKey deps k (KeyEncoding (Spec crt)) = Inr keyData \<longrightarrow>
          DecodePrivateKeyBytes deps keyData = Inr k
        \<and> fst (generateCSR deps crt keyData w) =
            (case GenerateCSR deps crt of
               Inl err \<Rightarrow> Inl err
             | Inr csr \<Rightarrow>
                 (case EncodeCSR deps csr k of
                    Inl err \<Rightarrow> Inl err
                  | Inr csrDER \<Rightarrow>
                      Inr (pem_EncodeToMemory
                             \<lparr>Type = ''CERTIFICATE REQUEST'', Bytes = csrDER\<rparr>))))"
proof (intro conjI impI)
  assume "KeyCodec_encode k e = Inr bs"
  then show "KeyCodec_decode bs = Inr k"
    by (rule KeyCodec_roundtrip)
next
  assume a: "EncodePrivateKey deps = KeyCodec_encode
        \<and> DecodePrivateKeyBytes deps = KeyCodec_decode
        \<and> GeneratePrivateKeyForCertificate deps crt = Inr k
        \<and> EncodePrivateKey deps k (KeyEncoding (Spec crt)) = Inr keyData"
  then have "KeyCodec_encode k (KeyEncoding (Spec crt)) = Inr keyData"
    by metis
  then have "KeyCodec_decode keyData = Inr k"
    by (rule KeyCodec_roundtrip)
  with a show d: "DecodePrivateKeyBytes deps keyData = Inr k"
    by metis
  show "fst (generateCSR deps crt keyData w) =
            (case GenerateCSR deps crt of
               Inl err \<Rightarrow> Inl err
             | Inr csr \<Rightarrow>
                 (case EncodeCSR deps csr k of
                    Inl err \<Rightarrow> Inl err
                  | Inr csrDER \<Rightarrow>
                      Inr (pem_EncodeToMemory
                             \<lparr>Type = ''CERTIFICATE REQUEST'', Bytes = csrDER\<rparr>)))"
    unfolding generateCSR_result d by (simp split: sum.splits)
qed


text \<open>The instance: an RSA key in the first encoding, as the example invocation has it.\<close>

theorem KeyCodec_decode_encode_witness:
  "KeyCodec_encode \<lparr>algorithm = RSA, material = ''key-1''\<rparr> ''pkcs1''
     = Inr (pem_EncodeToMemory \<lparr>Type = ''RSA PRIVATE KEY'', Bytes = ''key-1''\<rparr>)
   \<and> KeyCodec_decode (pem_EncodeToMemory \<lparr>Type = ''RSA PRIVATE KEY'', Bytes = ''key-1''\<rparr>)
       = Inr \<lparr>algorithm = RSA, material = ''key-1''\<rparr>
   \<and> EncodePrivateKey example_pki = KeyCodec_encode
   \<and> DecodePrivateKeyBytes example_pki = KeyCodec_decode
   \<and> GeneratePrivateKeyForCertificate example_pki example_certificate
       = Inr \<lparr>algorithm = RSA, material = ''key-1''\<rparr>
   \<and> EncodePrivateKey example_pki \<lparr>algorithm = RSA, material = ''key-1''\<rparr>
        (KeyEncoding (Spec example_certificate))
       = Inr (pem_EncodeToMemory \<lparr>Type = ''RSA PRIVATE KEY'', Bytes = ''key-1''\<rparr>)
   \<and> DecodePrivateKeyBytes example_pki
        (pem_EncodeToMemory \<lparr>Type = ''RSA PRIVATE KEY'', Bytes = ''key-1''\<rparr>)
       = Inr \<lparr>algorithm = RSA, material = ''key-1''\<rparr>
   \<and> fst (generateCSR example_pki example_certificate
             (pem_EncodeToMemory \<lparr>Type = ''RSA PRIVATE KEY'', Bytes = ''key-1''\<rparr>) example_world)
       = Inr (pem_EncodeToMemory
                \<lparr>Type = ''CERTIFICATE REQUEST'',
                 Bytes = ''example.com,public-key-1,signed-with-key-1''\<rparr>)"
proof -
  let ?k = "\<lparr>algorithm = RSA, material = ''key-1''\<rparr>"
  let ?data = "pem_EncodeToMemory \<lparr>Type = ''RSA PRIVATE KEY'', Bytes = ''key-1''\<rparr>"
  have e: "EncodePrivateKey example_pki ?k (KeyEncoding (Spec example_certificate)) = Inr ?data"
    unfolding example_pki_steps(3,6) by (rule example_pki_encoded)
  note t = KeyCodec_decode_encode [where k = "?k" and e = "''pkcs1''" and bs = "?data"
      and deps = example_pki and crt = example_certificate and keyData = "?data"
      and w = example_world]
  from t example_pki_encoded have d: "KeyCodec_decode ?data = Inr ?k"
    by blast
  from t example_pki_steps(2,3,4) e
  have g: "DecodePrivateKeyBytes example_pki ?data = Inr ?k
      \<and> fst (generateCSR example_pki example_certificate ?data example_world) =
            (case GenerateCSR example_pki example_certificate of
               Inl err \<Rightarrow> Inl err
             | Inr csr \<Rightarrow>
                 (case EncodeCSR example_pki csr ?k of
                    Inl err \<Rightarrow> Inl err
                  | Inr csrDER \<Rightarrow>
                      Inr (pem_EncodeToMemory
                             \<lparr>Type = ''CERTIFICATE REQUEST'', Bytes = csrDER\<rparr>)))"
    by blast
  from g have "fst (generateCSR example_pki example_certificate ?data example_world)
       = Inr (pem_EncodeToMemory
                \<lparr>Type = ''CERTIFICATE REQUEST'',
                 Bytes = ''example.com,public-key-1,signed-with-key-1''\<rparr>)"
    by (simp add: example_pki_steps(5,7) example_pki_signed)
  with example_pki_encoded d example_pki_steps(2,3,4) e g show ?thesis
    by blast
qed



end
